theory Spec2Isabelle
  imports Complex_Main
begin

section \<open>JavaScript values\<close>

text \<open>
  A JavaScript \<^verbatim>\<open>number\<close> is an IEEE double. The model keeps the three special values
  and takes every finite value as an exact rational: rounding and the sign of zero are not
  modelled, so sums and quotients of finite numbers are the exact ones. The special values
  follow the language: \<^verbatim>\<open>NaN\<close> is absorbing, opposite infinities cancel to \<^verbatim>\<open>NaN\<close>,
  and a division by zero gives an infinity or \<^verbatim>\<open>NaN\<close>.
\<close>

datatype number = NaN | NegInf | Fin rat | PosInf

instantiation number :: "{plus, uminus, minus, times, inverse}"
begin

fun plus_number :: "number \<Rightarrow> number \<Rightarrow> number" where
  "plus_number NaN _ = NaN"
| "plus_number _ NaN = NaN"
| "plus_number (Fin a) (Fin b) = Fin (a + b)"
| "plus_number PosInf NegInf = NaN"
| "plus_number NegInf PosInf = NaN"
| "plus_number PosInf _ = PosInf"
| "plus_number _ PosInf = PosInf"
| "plus_number NegInf _ = NegInf"
| "plus_number _ NegInf = NegInf"

fun uminus_number :: "number \<Rightarrow> number" where
  "uminus_number NaN = NaN"
| "uminus_number NegInf = PosInf"
| "uminus_number (Fin a) = Fin (- a)"
| "uminus_number PosInf = NegInf"

definition minus_number :: "number \<Rightarrow> number \<Rightarrow> number" where
  "minus_number x y = x + (- y)"

fun times_number :: "number \<Rightarrow> number \<Rightarrow> number" where
  "times_number NaN _ = NaN"
| "times_number _ NaN = NaN"
| "times_number (Fin a) (Fin b) = Fin (a * b)"
| "times_number PosInf (Fin b) = (if b = 0 then NaN else if 0 < b then PosInf else NegInf)"
| "times_number NegInf (Fin b) = (if b = 0 then NaN else if 0 < b then NegInf else PosInf)"
| "times_number (Fin a) PosInf = (if a = 0 then NaN else if 0 < a then PosInf else NegInf)"
| "times_number (Fin a) NegInf = (if a = 0 then NaN else if 0 < a then NegInf else PosInf)"
| "times_number PosInf PosInf = PosInf"
| "times_number NegInf NegInf = PosInf"
| "times_number PosInf NegInf = NegInf"
| "times_number NegInf PosInf = NegInf"

fun divide_number :: "number \<Rightarrow> number \<Rightarrow> number" where
  "divide_number NaN _ = NaN"
| "divide_number _ NaN = NaN"
| "divide_number (Fin a) (Fin b) =
     (if b = 0 then (if a = 0 then NaN else if 0 < a then PosInf else NegInf)
      else Fin (a / b))"
| "divide_number (Fin a) _ = Fin 0"
| "divide_number PosInf (Fin b) = (if 0 \<le> b then PosInf else NegInf)"
| "divide_number NegInf (Fin b) = (if 0 \<le> b then NegInf else PosInf)"
| "divide_number _ _ = NaN"

definition inverse_number :: "number \<Rightarrow> number" where
  "inverse_number x = divide (Fin 1) x"

instance ..

end

text \<open>The comparison \<^verbatim>\<open><\<close>: false whenever an operand is \<^verbatim>\<open>NaN\<close>.\<close>

fun lt :: "number \<Rightarrow> number \<Rightarrow> bool" where
  "lt NaN _ = False"
| "lt _ NaN = False"
| "lt (Fin a) (Fin b) = (a < b)"
| "lt NegInf NegInf = False"
| "lt NegInf _ = True"
| "lt _ NegInf = False"
| "lt PosInf _ = False"
| "lt _ PosInf = True"

text \<open>\<^verbatim>\<open>Math.max\<close> and \<^verbatim>\<open>Math.min\<close> return \<^verbatim>\<open>NaN\<close> when an argument is \<^verbatim>\<open>NaN\<close>.\<close>

fun Math_max :: "number \<Rightarrow> number \<Rightarrow> number" where
  "Math_max NaN _ = NaN"
| "Math_max _ NaN = NaN"
| "Math_max PosInf _ = PosInf"
| "Math_max _ PosInf = PosInf"
| "Math_max NegInf y = y"
| "Math_max x NegInf = x"
| "Math_max (Fin a) (Fin b) = Fin (max a b)"

fun Math_min :: "number \<Rightarrow> number \<Rightarrow> number" where
  "Math_min NaN _ = NaN"
| "Math_min _ NaN = NaN"
| "Math_min NegInf _ = NegInf"
| "Math_min _ NegInf = NegInf"
| "Math_min PosInf y = y"
| "Math_min x PosInf = x"
| "Math_min (Fin a) (Fin b) = Fin (min a b)"

text \<open>
  The result of reading a property of the note table: a number, \<^verbatim>\<open>undefined\<close>, or one of
  the members every object literal inherits from \<^verbatim>\<open>Object.prototype\<close> (named by its
  key). \<open>truthy\<close> is the language's boolean conversion and \<open>ToNumber\<close> its numeric one.
\<close>

datatype jsval = Undefined | Num number | Inherited string

fun truthy :: "jsval \<Rightarrow> bool" where
  "truthy Undefined = False"
| "truthy (Num NaN) = False"
| "truthy (Num (Fin a)) = (a \<noteq> 0)"
| "truthy (Num _) = True"
| "truthy (Inherited _) = True"

fun ToNumber :: "jsval \<Rightarrow> number" where
  "ToNumber Undefined = NaN"
| "ToNumber (Num n) = n"
| "ToNumber (Inherited _) = NaN"

text \<open>
  Reading \<^verbatim>\<open>xs[i]\<close>: \<^verbatim>\<open>undefined\<close> outside the array, written \<open>None\<close>.
\<close>

definition array_get :: "'a list \<Rightarrow> nat \<Rightarrow> 'a option" where
  "array_get xs i = (if i < length xs then Some (xs ! i) else None)"

section \<open>The note table\<close>

definition NOTE_FREQS :: "(string \<times> rat) list" where
  "NOTE_FREQS =
   [(''C1'', 32.70), (''C#1'', 34.65), (''D1'', 36.71), (''D#1'', 38.89), (''E1'', 41.20),
    (''F1'', 43.65), (''F#1'', 46.25), (''G1'', 49.00), (''G#1'', 51.91), (''A1'', 55.00),
    (''A#1'', 58.27), (''B1'', 61.74),
    (''C2'', 65.41), (''C#2'', 69.30), (''D2'', 73.42), (''D#2'', 77.78), (''E2'', 82.41),
    (''F2'', 87.31), (''F#2'', 92.50), (''G2'', 98.00), (''G#2'', 103.83), (''A2'', 110.00),
    (''A#2'', 116.54), (''B2'', 123.47),
    (''C3'', 130.81), (''C#3'', 138.59), (''D3'', 146.83), (''D#3'', 155.56), (''E3'', 164.81),
    (''F3'', 174.61), (''F#3'', 185.00), (''G3'', 196.00), (''G#3'', 207.65), (''A3'', 220.00),
    (''A#3'', 233.08), (''B3'', 246.94),
    (''C4'', 261.63), (''C#4'', 277.18), (''D4'', 293.66), (''D#4'', 311.13), (''E4'', 329.63),
    (''F4'', 349.23), (''F#4'', 369.99), (''G4'', 392.00), (''G#4'', 415.30), (''A4'', 440.00),
    (''A#4'', 466.16), (''B4'', 493.88),
    (''C5'', 523.25), (''C#5'', 554.37), (''D5'', 587.33), (''D#5'', 622.25), (''E5'', 659.25),
    (''F5'', 698.46), (''F#5'', 739.99), (''G5'', 783.99), (''G#5'', 830.61), (''A5'', 880.00),
    (''A#5'', 932.33), (''B5'', 987.77)]"

text \<open>
  \<^verbatim>\<open>NOTE_FREQS\<close> is an object literal, so a property read that finds no own property
  goes on to \<^verbatim>\<open>Object.prototype\<close>. These are the keys it answers.
\<close>

definition Object_prototype :: "string list" where
  "Object_prototype =
   [''constructor'', ''__proto__'', ''hasOwnProperty'', ''isPrototypeOf'',
    ''propertyIsEnumerable'', ''toLocaleString'', ''toString'', ''valueOf'',
    ''__defineGetter__'', ''__defineSetter__'', ''__lookupGetter__'', ''__lookupSetter__'']"

definition NOTE_FREQS_get :: "string \<Rightarrow> jsval" where
  "NOTE_FREQS_get k =
     (case map_of NOTE_FREQS k of
        Some f \<Rightarrow> Num (Fin f)
      | None \<Rightarrow> if k \<in> set Object_prototype then Inherited k else Undefined)"

section \<open>The track document\<close>

datatype oscillator_type = Sawtooth | Square | Sine | Triangle

datatype sound_effect =
  Cat | Dog | Bird | Water | Thunder | Traffic | Wind | Machinery | People | NoEffect

record synth_settings =
  synth_waveform :: oscillator_type
  cutoff :: number
  resonance :: number
  attack :: number
  decay :: number

record bass_settings =
  bass_waveform :: oscillator_type
  filterFreq :: number

record drum_settings =
  kickPunch :: number
  hatBright :: number

text \<open>
  \<^verbatim>\<open>custom\<close> is optional in the type; \<^verbatim>\<open>sfx\<close> is not, but the dispatcher tests it
  for presence, so both are options here. A \<^verbatim>\<open>null\<close> slot of \<^verbatim>\<open>bass\<close> or
  \<^verbatim>\<open>lead\<close> is \<open>None\<close>.
\<close>

record sequences_t =
  kick :: "bool list"
  hat :: "bool list"
  bass :: "string option list"
  lead :: "string option list"
  sfx :: "bool list option"
  custom :: "bool list option"

record TrackData =
  bpm :: number
  key :: string
  mood :: string
  visualSummary :: string
  soundEffect :: "sound_effect option"
  synthSettings :: synth_settings
  bassSettings :: bass_settings
  drumSettings :: drum_settings
  sequences :: sequences_t

section \<open>Audio parameters, nodes and voices\<close>

text \<open>
  The Web Audio interface is the engine's output: the model does not run it, it records
  what the engine asks of it. An \<^verbatim>\<open>AudioParam\<close> is the value its getter returns and
  its timeline of scheduled events. The audio thread moves \<open>pvalue\<close> along the timeline
  as time passes; the engine only reads it, so the theorems hold for every \<open>pvalue\<close>.
  An automation event carries its target value and its time.
\<close>

datatype automation =
    SetValueAtTime number number
  | LinearRampToValueAtTime number number
  | ExponentialRampToValueAtTime number number

fun event_value :: "automation \<Rightarrow> number" where
  "event_value (SetValueAtTime v t) = v"
| "event_value (LinearRampToValueAtTime v t) = v"
| "event_value (ExponentialRampToValueAtTime v t) = v"

fun event_time :: "automation \<Rightarrow> number" where
  "event_time (SetValueAtTime v t) = t"
| "event_time (LinearRampToValueAtTime v t) = t"
| "event_time (ExponentialRampToValueAtTime v t) = t"

record audio_param =
  pvalue :: number
  events :: "automation list"

definition new_param :: "rat \<Rightarrow> audio_param" where
  "new_param d = \<lparr>pvalue = Fin d, events = []\<rparr>"

definition set_value :: "audio_param \<Rightarrow> number \<Rightarrow> audio_param" where
  "set_value p v = p\<lparr>pvalue := v\<rparr>"

text \<open>
  The timeline is kept in time order; a new event goes after the events that are not
  later than it. \<^verbatim>\<open>cancelScheduledValues(t)\<close> removes the events at or after \<open>t\<close>.
\<close>

fun insert_event :: "automation \<Rightarrow> automation list \<Rightarrow> automation list" where
  "insert_event e [] = [e]"
| "insert_event e (x # xs) =
     (if lt (event_time e) (event_time x) then e # x # xs else x # insert_event e xs)"

definition setValueAtTime :: "audio_param \<Rightarrow> number \<Rightarrow> number \<Rightarrow> audio_param" where
  "setValueAtTime p v t = p\<lparr>events := insert_event (SetValueAtTime v t) (events p)\<rparr>"

definition linearRampToValueAtTime :: "audio_param \<Rightarrow> number \<Rightarrow> number \<Rightarrow> audio_param" where
  "linearRampToValueAtTime p v t =
     p\<lparr>events := insert_event (LinearRampToValueAtTime v t) (events p)\<rparr>"

definition exponentialRampToValueAtTime ::
  "audio_param \<Rightarrow> number \<Rightarrow> number \<Rightarrow> audio_param" where
  "exponentialRampToValueAtTime p v t =
     p\<lparr>events := insert_event (ExponentialRampToValueAtTime v t) (events p)\<rparr>"

definition cancelScheduledValues :: "audio_param \<Rightarrow> number \<Rightarrow> audio_param" where
  "cancelScheduledValues p t = p\<lparr>events := filter (\<lambda>e. lt (event_time e) t) (events p)\<rparr>"

datatype filter_type = Lowpass | Highpass | Bandpass

text \<open>
  An oscillator has its type, its frequency and the times given to \<^verbatim>\<open>start\<close> and
  \<^verbatim>\<open>stop\<close>; a biquad filter its type, frequency and Q.
\<close>

datatype audio_node =
    OscillatorNode oscillator_type audio_param "number option" "number option"
  | BiquadFilterNode filter_type audio_param audio_param
  | GainNode audio_param
  | DelayNode audio_param

text \<open>
  A connection joins two endpoints: a node the voice created (by the name of its
  variable), a parameter of such a node, or a node the engine owns (by its field name).
\<close>

datatype endpoint = Local string | LocalParam string string | Shared string

record voice_graph =
  nodes :: "(string \<times> audio_node) list"
  wires :: "(endpoint \<times> endpoint) list"

type_synonym array_buffer = "nat list"
type_synonym audio_buffer = "rat list"

text \<open>
  What a trigger adds to the audio graph. The kick, bass and lead chains are written out;
  the hat, ambience and sample voices are recorded by their arguments.
\<close>

datatype voice =
    KickVoice voice_graph
  | HatVoice number number
  | BassVoice voice_graph
  | LeadVoice voice_graph
  | SfxVoice sound_effect number
  | CustomVoice audio_buffer number

section \<open>The engine\<close>

datatype context_state = Suspended | Running

text \<open>
  The fields of \<^verbatim>\<open>AudioEngine\<close>; \<open>None\<close> is \<^verbatim>\<open>null\<close>. The convolver, compressor,
  analyser, wave shaper and recording destination have no parameter the engine touches
  after construction and are kept as presence flags. \<open>voices\<close> is what the triggers
  have handed to the audio graph, \<open>timeouts\<close> the step notifications handed to
  \<^verbatim>\<open>setTimeout\<close> (step and delay in milliseconds). The recorder fields are left out.
\<close>

record engine =
  ctx :: "context_state option"
  masterGain :: "audio_node option"
  masterFilter :: "audio_node option"
  compressor :: bool
  analyser :: bool
  dest :: bool
  reverbNode :: bool
  reverbSend :: "audio_node option"
  delayNode :: "audio_node option"
  delayFeedback :: "audio_node option"
  delaySend :: "audio_node option"
  distortionNode :: bool
  distortionSend :: "audio_node option"
  connections :: "(endpoint \<times> endpoint) list"
  nextNoteTime :: number
  currentStep :: nat
  timerID :: "nat option"
  isPlaying :: bool
  trackData :: "TrackData option"
  customBuffer :: "audio_buffer option"
  isCustomMuted :: bool
  tempoModifier :: number
  bassDistortionActive :: bool
  onStep :: bool
  voices :: "voice list"
  timeouts :: "(nat \<times> number) list"

definition new_engine :: engine where
  "new_engine =
     \<lparr>ctx = None, masterGain = None, masterFilter = None, compressor = False,
      analyser = False, dest = False, reverbNode = False, reverbSend = None,
      delayNode = None, delayFeedback = None, delaySend = None, distortionNode = False,
      distortionSend = None, connections = [], nextNoteTime = Fin 0, currentStep = 0,
      timerID = None, isPlaying = False, trackData = None, customBuffer = None,
      isCustomMuted = False, tempoModifier = Fin 1, bassDistortionActive = False,
      onStep = False, voices = [], timeouts = []\<rparr>"

text \<open>
  \<^verbatim>\<open>init\<close>: builds the graph once, then resumes a suspended context. \<open>fresh\<close> is the
  state the platform gives a new context.
\<close>

definition init :: "context_state \<Rightarrow> engine \<Rightarrow> engine" where
  "init fresh st =
     (let st1 =
        (if ctx st = None then
           st\<lparr>ctx := Some fresh,
              masterGain := Some (GainNode (new_param 0.5)),
              masterFilter := Some (BiquadFilterNode Lowpass (new_param 22000) (new_param 1)),
              compressor := True,
              analyser := True,
              dest := True,
              reverbNode := True,
              reverbSend := Some (GainNode (new_param 0)),
              delayNode := Some (DelayNode (new_param 0.375)),
              delayFeedback := Some (GainNode (new_param 0.6)),
              delaySend := Some (GainNode (new_param 0)),
              distortionNode := True,
              distortionSend := Some (GainNode (new_param 0)),
              connections :=
                [(Shared ''delayNode'', Shared ''delayFeedback''),
                 (Shared ''delayFeedback'', Shared ''delayNode''),
                 (Shared ''masterGain'', Shared ''masterFilter''),
                 (Shared ''masterFilter'', Shared ''compressor''),
                 (Shared ''masterFilter'', Shared ''reverbSend''),
                 (Shared ''reverbSend'', Shared ''reverbNode''),
                 (Shared ''reverbNode'', Shared ''compressor''),
                 (Shared ''masterFilter'', Shared ''delaySend''),
                 (Shared ''delaySend'', Shared ''delayNode''),
                 (Shared ''delayNode'', Shared ''compressor''),
                 (Shared ''masterFilter'', Shared ''distortionSend''),
                 (Shared ''distortionSend'', Shared ''distortionNode''),
                 (Shared ''distortionNode'', Shared ''compressor''),
                 (Shared ''compressor'', Shared ''analyser''),
                 (Shared ''analyser'', Shared ''destination''),
                 (Shared ''compressor'', Shared ''dest'')]\<rparr>
         else st)
      in if ctx st1 = Some Suspended then st1\<lparr>ctx := Some Running\<rparr> else st1)"

subsection \<open>Session operations\<close>

definition loadTrack :: "engine \<Rightarrow> TrackData \<Rightarrow> engine" where
  "loadTrack st data = st\<lparr>trackData := Some data, currentStep := 0\<rparr>"

definition muteCustomTrack :: "engine \<Rightarrow> bool \<Rightarrow> engine" where
  "muteCustomTrack st mute = st\<lparr>isCustomMuted := mute\<rparr>"

definition setTempoModifier :: "engine \<Rightarrow> number \<Rightarrow> engine" where
  "setTempoModifier st modifier =
     st\<lparr>tempoModifier := Math_max (Fin 0.5) (Math_min (Fin 2.0) modifier)\<rparr>"

definition setBassDistortion :: "engine \<Rightarrow> bool \<Rightarrow> engine" where
  "setBassDistortion st active = st\<lparr>bassDistortionActive := active\<rparr>"

text \<open>
  \<^verbatim>\<open>nextStep\<close>, with its two local values as functions of the track tempo and the stored
  modifier.
\<close>

definition currentBpm :: "engine \<Rightarrow> TrackData \<Rightarrow> number" where
  "currentBpm st td = bpm td * tempoModifier st"

definition secondsPerBeat :: "engine \<Rightarrow> TrackData \<Rightarrow> number" where
  "secondsPerBeat st td = Fin 60.0 / currentBpm st td"

definition nextStep :: "engine \<Rightarrow> engine" where
  "nextStep st =
     (case trackData st of
        None \<Rightarrow> st
      | Some td \<Rightarrow>
          st\<lparr>nextNoteTime := nextNoteTime st + Fin 0.25 * secondsPerBeat st td,
             currentStep := (currentStep st + 1) mod 16\<rparr>)"

text \<open>
  \<^verbatim>\<open>loadCustomSample\<close>. \<open>decode\<close> stands for \<^verbatim>\<open>decodeAudioData\<close>, which rejects what
  it cannot decode; the \<^verbatim>\<open>try\<close> block and its handler are the two stages below. The
  result is the engine and the lines written to the console, or the error that reaches the
  caller. The function runs to its end without another operation in between.
\<close>

datatype error = EncodingError | TypeError

definition loadCustomSample ::
  "(array_buffer \<Rightarrow> error + audio_buffer) \<Rightarrow> context_state \<Rightarrow> engine \<Rightarrow> array_buffer
     \<Rightarrow> error + (engine \<times> string list)" where
  "loadCustomSample decode fresh st arrayBuffer =
     (let st1 = (if ctx st = None then init fresh st else st)
      in if ctx st1 = None then Inr (st1, [])
         else
           let attempt =
             (case decode arrayBuffer of
                Inl e \<Rightarrow> Inl e
              | Inr buffer \<Rightarrow> Inr (st1\<lparr>customBuffer := Some buffer, isCustomMuted := False\<rparr>))
           in case attempt of
                Inl e \<Rightarrow> Inr (st1, [''Failed to decode custom audio:''])
              | Inr st2 \<Rightarrow> Inr (st2, []))"

subsection \<open>Voices\<close>

text \<open>
  Each trigger builds its chain from fresh nodes (an oscillator starts as a 440 Hz sine, a
  gain at 1, a biquad filter at 350 Hz with Q 1, a delay at 0) and gives it to the graph.
  Nodes are listed in the order they are created, connections in the order they are made.
\<close>

definition kick_graph :: "number \<Rightarrow> number \<Rightarrow> voice_graph" where
  "kick_graph time punch =
     (let startFreq = Fin 150 + (punch * Fin 100);
          endFreq = Fin 45;
          frequency =
            exponentialRampToValueAtTime
              (setValueAtTime (new_param 440) startFreq time) endFreq (time + Fin 0.08);
          gain =
            exponentialRampToValueAtTime
              (setValueAtTime (new_param 1) (Fin 1.0) time)
              (Fin 0.001) (time + Fin 0.25 + (punch * Fin 0.1))
      in \<lparr>nodes =
            [(''osc'', OscillatorNode Sine frequency (Some time) (Some (time + Fin 0.3))),
             (''gain'', GainNode gain)],
          wires =
            [(Local ''osc'', Local ''gain''), (Local ''gain'', Shared ''masterGain'')]\<rparr>)"

definition triggerKick :: "engine \<Rightarrow> number \<Rightarrow> number \<Rightarrow> engine" where
  "triggerKick st time punch =
     (if ctx st = None \<or> masterGain st = None then st
      else st\<lparr>voices := voices st @ [KickVoice (kick_graph time punch)]\<rparr>)"

definition triggerHat :: "engine \<Rightarrow> number \<Rightarrow> number \<Rightarrow> engine" where
  "triggerHat st time bright =
     (if ctx st = None \<or> masterGain st = None then st
      else st\<lparr>voices := voices st @ [HatVoice time bright]\<rparr>)"

text \<open>
  \<^verbatim>\<open>triggerBass\<close>. The frequency argument is what the table read returned; assigning it
  to the oscillator's \<^verbatim>\<open>frequency.value\<close> converts it to a number. The distorted chain
  goes through the engine's wave shaper when there is one.
\<close>

definition distorted_bass_graph :: "bool \<Rightarrow> number \<Rightarrow> jsval \<Rightarrow> bass_settings \<Rightarrow> voice_graph" where
  "distorted_bass_graph shaper time freq settings =
     (let frequency = set_value (new_param 440) (ToNumber freq);
          cutoff_sweep =
            exponentialRampToValueAtTime
              (setValueAtTime (new_param 350) (filterFreq settings * Fin 2.5) time)
              (filterFreq settings) (time + Fin 0.3);
          Q = set_value (new_param 1) (Fin 15);
          drive = set_value (new_param 1) (Fin 5.0);
          envelope =
            exponentialRampToValueAtTime
              (setValueAtTime (new_param 1) (Fin 0.6) time) (Fin 0.001) (time + Fin 0.3)
      in \<lparr>nodes =
            [(''osc'', OscillatorNode Sawtooth frequency (Some time) (Some (time + Fin 0.4))),
             (''filter'', BiquadFilterNode Lowpass cutoff_sweep Q),
             (''distGain'', GainNode drive),
             (''outGain'', GainNode envelope)],
          wires =
            [(Local ''osc'', Local ''filter''), (Local ''filter'', Local ''distGain'')]
            @ (if shaper
               then [(Local ''distGain'', Shared ''distortionNode''),
                     (Shared ''distortionNode'', Local ''outGain'')]
               else [(Local ''distGain'', Local ''outGain'')])
            @ [(Local ''outGain'', Shared ''masterGain'')]\<rparr>)"

definition normal_bass_graph :: "number \<Rightarrow> jsval \<Rightarrow> bass_settings \<Rightarrow> voice_graph" where
  "normal_bass_graph time freq settings =
     (let frequency = set_value (new_param 440) (ToNumber freq);
          cutoff_sweep =
            linearRampToValueAtTime
              (setValueAtTime (new_param 350) (filterFreq settings) time)
              (filterFreq settings * Fin 0.8) (time + Fin 0.2);
          Q = set_value (new_param 1) (Fin 2);
          envelope =
            exponentialRampToValueAtTime
              (setValueAtTime (new_param 1) (Fin 0.8) time) (Fin 0.001) (time + Fin 0.3)
      in \<lparr>nodes =
            [(''osc'',
              OscillatorNode (bass_waveform settings) frequency (Some time)
                (Some (time + Fin 0.4))),
             (''filter'', BiquadFilterNode Lowpass cutoff_sweep Q),
             (''gain'', GainNode envelope)],
          wires =
            [(Local ''osc'', Local ''filter''), (Local ''filter'', Local ''gain''),
             (Local ''gain'', Shared ''masterGain'')]\<rparr>)"

definition triggerBass :: "engine \<Rightarrow> number \<Rightarrow> jsval \<Rightarrow> bass_settings \<Rightarrow> engine" where
  "triggerBass st time freq settings =
     (if ctx st = None \<or> masterGain st = None then st
      else if bassDistortionActive st
      then st\<lparr>voices :=
                voices st
                @ [BassVoice (distorted_bass_graph (distortionNode st) time freq settings)]\<rparr>
      else st\<lparr>voices := voices st @ [BassVoice (normal_bass_graph time freq settings)]\<rparr>)"

definition lead_graph :: "number \<Rightarrow> jsval \<Rightarrow> synth_settings \<Rightarrow> voice_graph" where
  "lead_graph time freq settings =
     (let gain =
            exponentialRampToValueAtTime
              (linearRampToValueAtTime
                 (setValueAtTime (new_param 1) (Fin 0) time) (Fin 0.2) (time + Fin 0.005))
              (Fin 0.001) (time + decay settings * Fin 0.8 + Fin 0.05);
          Q = set_value (new_param 1) (resonance settings * Fin 0.5);
          cutoff_sweep =
            exponentialRampToValueAtTime
              (setValueAtTime (new_param 350) (cutoff settings) time)
              (cutoff settings * Fin 0.5) (time + Fin 0.1);
          frequency = set_value (new_param 440) (ToNumber freq);
          fm = (synth_waveform settings = Sine \<or> synth_waveform settings = Triangle);
          delayTime = set_value (new_param 0) (Fin 3 / Fin 16)
      in \<lparr>nodes =
            [(''gain'', GainNode gain),
             (''filter'', BiquadFilterNode Lowpass cutoff_sweep Q),
             (''osc1'',
              OscillatorNode (synth_waveform settings) frequency (Some time)
                (Some (time + Fin 1.0)))]
            @ (if fm
               then [(''fmOsc'',
                      OscillatorNode Sine (set_value (new_param 440) (ToNumber freq * Fin 2))
                        (Some time) (Some (time + Fin 0.5))),
                     (''fmGain'', GainNode (set_value (new_param 1) (Fin 200)))]
               else [])
            @ [(''delay'', DelayNode delayTime),
               (''feedback'', GainNode (set_value (new_param 1) (Fin 0.3))),
               (''delayGain'', GainNode (set_value (new_param 1) (Fin 0.3)))],
          wires =
            [(Local ''osc1'', Local ''filter'')]
            @ (if fm
               then [(Local ''fmOsc'', Local ''fmGain''),
                     (Local ''fmGain'', LocalParam ''osc1'' ''frequency'')]
               else [])
            @ [(Local ''filter'', Local ''gain''),
               (Local ''gain'', Shared ''masterGain''),
               (Local ''gain'', Local ''delay''),
               (Local ''delay'', Local ''delayGain''),
               (Local ''delayGain'', Shared ''masterGain''),
               (Local ''delay'', Local ''feedback''),
               (Local ''feedback'', Local ''delay'')]\<rparr>)"

definition triggerLead :: "engine \<Rightarrow> number \<Rightarrow> jsval \<Rightarrow> synth_settings \<Rightarrow> engine" where
  "triggerLead st time freq settings =
     (if ctx st = None \<or> masterGain st = None then st
      else st\<lparr>voices := voices st @ [LeadVoice (lead_graph time freq settings)]\<rparr>)"

text \<open>\<^verbatim>\<open>triggerSFX\<close>: one synthesiser per tag; \<^verbatim>\<open>'none'\<close> matches no case.\<close>

definition triggerSFX :: "engine \<Rightarrow> number \<Rightarrow> sound_effect \<Rightarrow> engine" where
  "triggerSFX st time type =
     (if ctx st = None \<or> masterGain st = None then st
      else if type = NoEffect then st
      else st\<lparr>voices := voices st @ [SfxVoice type time]\<rparr>)"

definition triggerCustomSample :: "engine \<Rightarrow> number \<Rightarrow> engine" where
  "triggerCustomSample st time =
     (case customBuffer st of
        None \<Rightarrow> st
      | Some buffer \<Rightarrow>
          if ctx st = None \<or> masterGain st = None \<or> isCustomMuted st then st
          else st\<lparr>voices := voices st @ [CustomVoice buffer time]\<rparr>)"

subsection \<open>The step dispatcher\<close>

text \<open>
  A slot of a note sequence is truthy when it holds a non-empty string; \<^verbatim>\<open>null\<close>,
  \<^verbatim>\<open>undefined\<close> (a read past the end) and the empty string are not.
\<close>

fun truthy_note :: "string option option \<Rightarrow> string option" where
  "truthy_note (Some (Some s)) = (if s = [] then None else Some s)"
| "truthy_note _ = None"

text \<open>
  \<^verbatim>\<open>scheduleStep\<close>; \<open>currentTime\<close> is the context's clock when it runs. The states
  \<open>s0\<close> to \<open>s6\<close> are the engine after each of its statements.
\<close>

definition scheduleStep :: "rat \<Rightarrow> engine \<Rightarrow> nat \<Rightarrow> number \<Rightarrow> engine" where
  "scheduleStep currentTime st step time =
     (case trackData st of
        None \<Rightarrow> st
      | Some td \<Rightarrow>
          if ctx st = None \<or> masterGain st = None then st
          else
            let s0 =
                  (if onStep st
                   then st\<lparr>timeouts :=
                             timeouts st
                             @ [(step, Math_max (Fin 0) ((time - Fin currentTime) * Fin 1000))]\<rparr>
                   else st);
                s1 =
                  (if array_get (kick (sequences td)) step = Some True
                   then triggerKick s0 time (kickPunch (drumSettings td)) else s0);
                s2 =
                  (if array_get (hat (sequences td)) step = Some True
                   then triggerHat s1 time (hatBright (drumSettings td)) else s1);
                s3 =
                  (case truthy_note (array_get (bass (sequences td)) step) of
                     None \<Rightarrow> s2
                   | Some bassNote \<Rightarrow>
                       if truthy (NOTE_FREQS_get bassNote)
                       then triggerBass s2 time (NOTE_FREQS_get bassNote) (bassSettings td)
                       else s2);
                s4 =
                  (case truthy_note (array_get (lead (sequences td)) step) of
                     None \<Rightarrow> s3
                   | Some leadNote \<Rightarrow>
                       if truthy (NOTE_FREQS_get leadNote)
                       then triggerLead s3 time (NOTE_FREQS_get leadNote) (synthSettings td)
                       else s3);
                s5 =
                  (case sfx (sequences td) of
                     None \<Rightarrow> s4
                   | Some xs \<Rightarrow>
                       if array_get xs step = Some True
                       then (case soundEffect td of
                               None \<Rightarrow> s4
                             | Some effect \<Rightarrow>
                                 if effect = NoEffect then s4 else triggerSFX s4 time effect)
                       else s4);
                shouldTriggerCustom =
                  (case custom (sequences td) of
                     None \<Rightarrow> False
                   | Some xs \<Rightarrow> array_get xs step = Some True);
                s6 =
                  (if customBuffer s5 \<noteq> None \<and> shouldTriggerCustom \<and> \<not> isCustomMuted s5
                   then triggerCustomSample s5 time else s5)
            in s6)"

subsection \<open>Gesture effects\<close>

text \<open>
  Each effect cancels what is scheduled on its parameter from \<open>time\<close> on, sets the value
  the parameter has now at \<open>time\<close>, and schedules its two ramps.
\<close>

definition triggerReverb :: "engine \<Rightarrow> number \<Rightarrow> engine" where
  "triggerReverb st time =
     (case reverbSend st of
        Some (GainNode gain) \<Rightarrow>
          let g1 = cancelScheduledValues gain time;
              g2 = setValueAtTime g1 (pvalue g1) time;
              g3 = linearRampToValueAtTime g2 (Fin 1.0) (time + Fin 0.1);
              g4 = exponentialRampToValueAtTime g3 (Fin 0.01) (time + Fin 2.0)
          in st\<lparr>reverbSend := Some (GainNode g4)\<rparr>
      | _ \<Rightarrow> st)"

definition triggerLowPass :: "engine \<Rightarrow> number \<Rightarrow> engine" where
  "triggerLowPass st time =
     (case masterFilter st of
        Some (BiquadFilterNode type frequency Q) \<Rightarrow>
          let f1 = cancelScheduledValues frequency time;
              f2 = setValueAtTime f1 (pvalue f1) time;
              f3 = exponentialRampToValueAtTime f2 (Fin 100) (time + Fin 0.2);
              f4 = exponentialRampToValueAtTime f3 (Fin 22000) (time + Fin 1.5)
          in st\<lparr>masterFilter := Some (BiquadFilterNode type f4 Q)\<rparr>
      | _ \<Rightarrow> st)"

definition triggerDistortion :: "engine \<Rightarrow> number \<Rightarrow> engine" where
  "triggerDistortion st time =
     (case distortionSend st of
        Some (GainNode gain) \<Rightarrow>
          let g1 = cancelScheduledValues gain time;
              g2 = setValueAtTime g1 (pvalue g1) time;
              g3 = linearRampToValueAtTime g2 (Fin 0.8) (time + Fin 0.1);
              g4 = linearRampToValueAtTime g3 (Fin 0) (time + Fin 0.5)
          in st\<lparr>distortionSend := Some (GainNode g4)\<rparr>
      | _ \<Rightarrow> st)"

definition triggerDelay :: "engine \<Rightarrow> number \<Rightarrow> engine" where
  "triggerDelay st time =
     (case delaySend st of
        Some (GainNode gain) \<Rightarrow>
          let g1 = cancelScheduledValues gain time;
              g2 = setValueAtTime g1 (pvalue g1) time;
              g3 = linearRampToValueAtTime g2 (Fin 1.0) (time + Fin 0.1);
              g4 = linearRampToValueAtTime g3 (Fin 0) (time + Fin 0.4)
          in st\<lparr>delaySend := Some (GainNode g4)\<rparr>
      | _ \<Rightarrow> st)"

definition triggerGestureFX :: "rat \<Rightarrow> engine \<Rightarrow> string \<Rightarrow> engine" where
  "triggerGestureFX currentTime st effectName =
     (if ctx st = None then st
      else
        let time = Fin currentTime
        in if effectName = ''reverb'' then triggerReverb st time
           else if effectName = ''filter'' then triggerLowPass st time
           else if effectName = ''distortion'' then triggerDistortion st time
           else if effectName = ''delay'' then triggerDelay st time
           else st)"

section \<open>Notions used in the statements\<close>

text \<open>A finite number between two bounds.\<close>

fun in_range :: "rat \<Rightarrow> rat \<Rightarrow> number \<Rightarrow> bool" where
  "in_range lo hi (Fin a) = (lo \<le> a \<and> a \<le> hi)"
| "in_range lo hi _ = False"

text \<open>The voices an operation has added to the graph.\<close>

definition new_voices :: "engine \<Rightarrow> engine \<Rightarrow> voice list" where
  "new_voices st st' = drop (length (voices st)) (voices st')"

fun is_kick :: "voice \<Rightarrow> bool" where
  "is_kick (KickVoice g) = True"
| "is_kick _ = False"

fun is_bass :: "voice \<Rightarrow> bool" where
  "is_bass (BassVoice g) = True"
| "is_bass _ = False"

fun is_lead :: "voice \<Rightarrow> bool" where
  "is_lead (LeadVoice g) = True"
| "is_lead _ = False"

text \<open>The chain \<^verbatim>\<open>triggerBass\<close> builds in a given engine state.\<close>

definition bass_graph :: "engine \<Rightarrow> number \<Rightarrow> jsval \<Rightarrow> bass_settings \<Rightarrow> voice_graph" where
  "bass_graph st time freq settings =
     (if bassDistortionActive st
      then distorted_bass_graph (distortionNode st) time freq settings
      else normal_bass_graph time freq settings)"

text \<open>
  What each statement of the dispatcher adds when it runs on an initialised engine, as a
  function of the track, the step and the time.
\<close>

definition kick_part :: "TrackData \<Rightarrow> nat \<Rightarrow> number \<Rightarrow> voice list" where
  "kick_part td s t =
     (if array_get (kick (sequences td)) s = Some True
      then [KickVoice (kick_graph t (kickPunch (drumSettings td)))] else [])"

definition hat_part :: "TrackData \<Rightarrow> nat \<Rightarrow> number \<Rightarrow> voice list" where
  "hat_part td s t =
     (if array_get (hat (sequences td)) s = Some True
      then [HatVoice t (hatBright (drumSettings td))] else [])"

definition bass_part :: "engine \<Rightarrow> TrackData \<Rightarrow> nat \<Rightarrow> number \<Rightarrow> voice list" where
  "bass_part st td s t =
     (case truthy_note (array_get (bass (sequences td)) s) of
        None \<Rightarrow> []
      | Some n \<Rightarrow>
          if truthy (NOTE_FREQS_get n)
          then [BassVoice (bass_graph st t (NOTE_FREQS_get n) (bassSettings td))]
          else [])"

definition lead_part :: "TrackData \<Rightarrow> nat \<Rightarrow> number \<Rightarrow> voice list" where
  "lead_part td s t =
     (case truthy_note (array_get (lead (sequences td)) s) of
        None \<Rightarrow> []
      | Some n \<Rightarrow>
          if truthy (NOTE_FREQS_get n)
          then [LeadVoice (lead_graph t (NOTE_FREQS_get n) (synthSettings td))]
          else [])"

definition sfx_part :: "TrackData \<Rightarrow> nat \<Rightarrow> number \<Rightarrow> voice list" where
  "sfx_part td s t =
     (case sfx (sequences td) of
        None \<Rightarrow> []
      | Some xs \<Rightarrow>
          if array_get xs s = Some True
          then (case soundEffect td of
                  None \<Rightarrow> []
                | Some effect \<Rightarrow> if effect = NoEffect then [] else [SfxVoice effect t])
          else [])"

definition custom_part :: "engine \<Rightarrow> TrackData \<Rightarrow> nat \<Rightarrow> number \<Rightarrow> voice list" where
  "custom_part st td s t =
     (case customBuffer st of
        None \<Rightarrow> []
      | Some buffer \<Rightarrow>
          if (case custom (sequences td) of
                None \<Rightarrow> False
              | Some xs \<Rightarrow> array_get xs s = Some True)
             \<and> \<not> isCustomMuted st
          then [CustomVoice buffer t] else [])"

text \<open>The times at which the sources of a chain start.\<close>

fun node_start :: "audio_node \<Rightarrow> number list" where
  "node_start (OscillatorNode ty f (Some t) e) = [t]"
| "node_start _ = []"

definition graph_starts :: "voice_graph \<Rightarrow> number list" where
  "graph_starts g = concat (map (\<lambda>n. node_start (snd n)) (nodes g))"

text \<open>
  The structure of a chain: the kinds of its nodes, in order, and its connections. The
  settings of the nodes (waveform, frequencies, envelopes, times) are not part of it.
\<close>

datatype node_class = OscillatorClass | BiquadFilterClass | GainClass | DelayClass

fun class_of :: "audio_node \<Rightarrow> node_class" where
  "class_of (OscillatorNode ty f b e) = OscillatorClass"
| "class_of (BiquadFilterNode ty f q) = BiquadFilterClass"
| "class_of (GainNode g) = GainClass"
| "class_of (DelayNode d) = DelayClass"

definition chain_structure :: "voice_graph \<Rightarrow> node_class list \<times> (endpoint \<times> endpoint) list" where
  "chain_structure g = (map (\<lambda>n. class_of (snd n)) (nodes g), wires g)"

definition uses_shared :: "voice_graph \<Rightarrow> string \<Rightarrow> bool" where
  "uses_shared g name = (Shared name \<in> set (map fst (wires g) @ map snd (wires g)))"

text \<open>The parameter a gesture token automates, and the two ramps of its curve.\<close>

definition gesture_param :: "engine \<Rightarrow> string \<Rightarrow> audio_param option" where
  "gesture_param st name =
     (if name = ''reverb''
      then (case reverbSend st of Some (GainNode g) \<Rightarrow> Some g | _ \<Rightarrow> None)
      else if name = ''filter''
      then (case masterFilter st of Some (BiquadFilterNode ty f q) \<Rightarrow> Some f | _ \<Rightarrow> None)
      else if name = ''distortion''
      then (case distortionSend st of Some (GainNode g) \<Rightarrow> Some g | _ \<Rightarrow> None)
      else if name = ''delay''
      then (case delaySend st of Some (GainNode g) \<Rightarrow> Some g | _ \<Rightarrow> None)
      else None)"

definition gesture_ramps :: "string \<Rightarrow> rat \<Rightarrow> automation list" where
  "gesture_ramps name t =
     (if name = ''reverb''
      then [LinearRampToValueAtTime (Fin 1) (Fin (t + 0.1)),
            ExponentialRampToValueAtTime (Fin 0.01) (Fin (t + 2))]
      else if name = ''filter''
      then [ExponentialRampToValueAtTime (Fin 100) (Fin (t + 0.2)),
            ExponentialRampToValueAtTime (Fin 22000) (Fin (t + 1.5))]
      else if name = ''distortion''
      then [LinearRampToValueAtTime (Fin 0.8) (Fin (t + 0.1)),
            LinearRampToValueAtTime (Fin 0) (Fin (t + 0.5))]
      else if name = ''delay''
      then [LinearRampToValueAtTime (Fin 1) (Fin (t + 0.1)),
            LinearRampToValueAtTime (Fin 0) (Fin (t + 0.4))]
      else [])"

text \<open>
  The range each effect keeps its parameter in: the send gains between silent and full,
  the master filter between the bottom of its sweep and its resting frequency.
\<close>

definition gesture_lo :: "string \<Rightarrow> rat" where
  "gesture_lo name = (if name = ''filter'' then 100 else 0)"

definition gesture_hi :: "string \<Rightarrow> rat" where
  "gesture_hi name = (if name = ''filter'' then 22000 else 1)"

text \<open>The events of a timeline that are still to come at time \<open>t\<close>.\<close>

definition pending :: "audio_param \<Rightarrow> rat \<Rightarrow> automation list" where
  "pending p t = filter (\<lambda>e. \<not> lt (event_time e) (Fin t)) (events p)"

text \<open>
  A parameter within the range of its effect: the value it has and every target on its
  timeline. An engine keeps its gesture parameters in range when each of the four does.
\<close>

definition bounded :: "rat \<Rightarrow> rat \<Rightarrow> audio_param \<Rightarrow> bool" where
  "bounded lo hi p =
     (in_range lo hi (pvalue p) \<and> list_all (\<lambda>e. in_range lo hi (event_value e)) (events p))"

definition gesture_bounded :: "engine \<Rightarrow> bool" where
  "gesture_bounded st =
     list_all
       (\<lambda>name. case gesture_param st name of
                  None \<Rightarrow> True
                | Some p \<Rightarrow> bounded (gesture_lo name) (gesture_hi name) p)
       [''reverb'', ''filter'', ''distortion'', ''delay'']"

text \<open>
  The audio thread, as far as the engine can see it: between two calls of the engine it
  moves the value of a parameter along the timeline, to a value between two of the values
  the parameter has or is scheduled to take (a ramp runs between its end points), and
  leaves the timeline as it is. A move to any other value is not one the audio thread
  makes.
\<close>

fun leq :: "number \<Rightarrow> number \<Rightarrow> bool" where
  "leq (Fin a) (Fin b) = (a \<le> b)"
| "leq _ _ = False"

definition in_hull :: "audio_param \<Rightarrow> rat \<Rightarrow> bool" where
  "in_hull p v =
     (list_ex (\<lambda>a. leq a (Fin v)) (pvalue p # map event_value (events p))
      \<and> list_ex (\<lambda>b. leq (Fin v) b) (pvalue p # map event_value (events p)))"

definition set_gesture_param :: "engine \<Rightarrow> string \<Rightarrow> audio_param \<Rightarrow> engine" where
  "set_gesture_param st name p =
     (if name = ''reverb'' then st\<lparr>reverbSend := Some (GainNode p)\<rparr>
      else if name = ''filter''
      then (case masterFilter st of
              Some (BiquadFilterNode ty f q) \<Rightarrow>
                st\<lparr>masterFilter := Some (BiquadFilterNode ty p q)\<rparr>
            | _ \<Rightarrow> st)
      else if name = ''distortion'' then st\<lparr>distortionSend := Some (GainNode p)\<rparr>
      else if name = ''delay'' then st\<lparr>delaySend := Some (GainNode p)\<rparr>
      else st)"

definition audio_thread :: "engine \<Rightarrow> string \<Rightarrow> rat \<Rightarrow> engine option" where
  "audio_thread st name v =
     (case gesture_param st name of
        None \<Rightarrow> None
      | Some p \<Rightarrow>
          if in_hull p v then Some (set_gesture_param st name (p\<lparr>pvalue := Fin v\<rparr>)) else None)"

text \<open>
  A history of the gesture surface: gestures at given times and moves of the audio
  thread, run from a given engine. A history with a move the audio thread cannot make has
  no outcome.
\<close>

datatype gesture_event = Gesture rat string | AudioThread string rat

fun run_gestures :: "gesture_event list \<Rightarrow> engine \<Rightarrow> engine option" where
  "run_gestures [] st = Some st"
| "run_gestures (Gesture now name # es) st = run_gestures es (triggerGestureFX now st name)"
| "run_gestures (AudioThread name v # es) st =
     (case audio_thread st name v of None \<Rightarrow> None | Some st' \<Rightarrow> run_gestures es st')"

text \<open>The delay tap of a lead chain.\<close>

definition delay_time_of :: "voice_graph \<Rightarrow> number option" where
  "delay_time_of g =
     (case map_of (nodes g) ''delay'' of Some (DelayNode p) \<Rightarrow> Some (pvalue p) | _ \<Rightarrow> None)"

definition gain_of :: "voice_graph \<Rightarrow> string \<Rightarrow> number option" where
  "gain_of g name =
     (case map_of (nodes g) name of Some (GainNode p) \<Rightarrow> Some (pvalue p) | _ \<Rightarrow> None)"

subsection \<open>Example inputs\<close>

text \<open>
  A track at 120 bpm with the kick on steps 0, 4, 8 and 12, a bass line and a lead line,
  and the engine after \<^verbatim>\<open>init\<close> and \<^verbatim>\<open>loadTrack\<close> of it.
\<close>

definition scenario_track :: TrackData where
  "scenario_track =
     \<lparr>bpm = Fin 120, key = ''Am'', mood = ''Glitchy'', visualSummary = ''grid'',
      soundEffect = Some NoEffect,
      synthSettings =
        \<lparr>synth_waveform = Sine, cutoff = Fin 2000, resonance = Fin 4, attack = Fin 0.01,
         decay = Fin 0.2\<rparr>,
      bassSettings = \<lparr>bass_waveform = Square, filterFreq = Fin 400\<rparr>,
      drumSettings = \<lparr>kickPunch = Fin 0.5, hatBright = Fin 0.5\<rparr>,
      sequences =
        \<lparr>kick = [True, False, False, False, True, False, False, False,
                 True, False, False, False, True, False, False, False],
         hat = [False, False, True, False, False, False, True, False,
                False, False, True, False, False, False, True, False],
         bass = [Some ''C2'', None, None, Some ''H9'', None, None, None, None,
                 Some ''G1'', None, None, None, None, None, None, None],
         lead = [None, Some ''A4'', None, None, None, None, None, None,
                 None, None, None, None, None, None, None, None],
         sfx = Some (replicate 16 False),
         custom = Some (replicate 16 False)\<rparr>\<rparr>"

definition ready_engine :: engine where
  "ready_engine = loadTrack (init Running new_engine) scenario_track"

text \<open>The same track with a bass slot that names a member of \<^verbatim>\<open>Object.prototype\<close>.\<close>

definition inherited_key_track :: TrackData where
  "inherited_key_track =
     scenario_track
       \<lparr>sequences := (sequences scenario_track)
          \<lparr>bass := [Some ''constructor'', None, None, None, None, None, None, None,
                    None, None, None, None, None, None, None, None]\<rparr>\<rparr>"

definition inherited_key_engine :: engine where
  "inherited_key_engine = loadTrack (init Running new_engine) inherited_key_track"

text \<open>
  The engine 50 ms after a first reverb gesture at time 1, when the audio thread has
  taken the wash-in ramp half way and the decay ramp is still to come.
\<close>

definition reverb_in_flight :: engine where
  "reverb_in_flight =
     (case audio_thread (triggerGestureFX 1 ready_engine ''reverb'') ''reverb'' 0.5 of
        None \<Rightarrow> ready_engine
      | Some st \<Rightarrow> st)"

text \<open>A decoder that rejects every input, and one that accepts every input.\<close>

definition reject_all :: "array_buffer \<Rightarrow> error + audio_buffer" where
  "reject_all arrayBuffer = Inl EncodingError"

definition accept_all :: "array_buffer \<Rightarrow> error + audio_buffer" where
  "accept_all arrayBuffer = Inr (map of_nat arrayBuffer)"

section \<open>Tempo and step advance\<close>

lemma plus_NaN [simp]: "x + NaN = NaN"
  by (cases x) simp_all

lemma setTempoModifier_in_range:
  "x \<noteq> NaN \<Longrightarrow> in_range 0.5 2 (tempoModifier (setTempoModifier st x))"
  by (cases x) (simp_all add: setTempoModifier_def)

lemma setTempoModifier_idempotent:
  "setTempoModifier st x = setTempoModifier st (Math_max (Fin 0.5) (Math_min (Fin 2.0) x))"
  by (cases x) (simp_all add: setTempoModifier_def)

lemma setTempoModifier_examples:
  "setTempoModifier st (Fin 10) = setTempoModifier st (Fin 2.0)"
  "setTempoModifier st (Fin 0.01) = setTempoModifier st (Fin 0.5)"
  by (simp_all add: setTempoModifier_def)

text \<open>
  At \<^verbatim>\<open>NaN\<close>, which is not a number and which no caller of the engine passes,
  \<^verbatim>\<open>Math.min\<close> and \<^verbatim>\<open>Math.max\<close> hand the argument through.
\<close>

lemma setTempoModifier_not_a_number:
  "tempoModifier (setTempoModifier st NaN) = NaN"
  by (simp add: setTempoModifier_def)

text \<open>
  C3. \<^verbatim>\<open>setTempoModifier\<close> stores its argument clamped to [0.5, 2.0]: for every number
  \<open>x\<close>, the infinities among them, the stored modifier lies in the interval, it is
  \<open>x\<close> itself when \<open>x\<close> lies there, and no other field of the engine changes.
  Setting \<open>x\<close> and setting the clamped \<open>x\<close> give the same engine, for every argument;
  so 10 does what 2.0 does and 0.01 what 0.5 does.
\<close>

theorem setTempoModifier_clamps:
  "(x \<noteq> NaN \<longrightarrow> in_range 0.5 2 (tempoModifier (setTempoModifier st x)))
   \<and> (in_range 0.5 2 x \<longrightarrow> tempoModifier (setTempoModifier st x) = x)
   \<and> setTempoModifier st x = setTempoModifier st (Math_max (Fin 0.5) (Math_min (Fin 2.0) x))
   \<and> setTempoModifier st x = setTempoModifier st (tempoModifier (setTempoModifier st x))
   \<and> (setTempoModifier st x)\<lparr>tempoModifier := tempoModifier st\<rparr> = st
   \<and> setTempoModifier st (Fin 10) = setTempoModifier st (Fin 2.0)
   \<and> setTempoModifier st (Fin 0.01) = setTempoModifier st (Fin 0.5)"
proof -
  have inside: "in_range 0.5 2 x \<longrightarrow> tempoModifier (setTempoModifier st x) = x"
    by (cases x) (auto simp: setTempoModifier_def)
  have again: "setTempoModifier st x = setTempoModifier st (tempoModifier (setTempoModifier st x))"
    by (cases x) (simp_all add: setTempoModifier_def)
  have frame: "(setTempoModifier st x)\<lparr>tempoModifier := tempoModifier st\<rparr> = st"
    by (simp add: setTempoModifier_def)
  show ?thesis
    using setTempoModifier_in_range[of x st] setTempoModifier_idempotent[of st x]
      setTempoModifier_examples[of st] inside again frame
    by blast
qed

theorem setTempoModifier_clamps_witness:
  "Fin 10 \<noteq> NaN
   \<and> tempoModifier (setTempoModifier new_engine (Fin 10)) = Fin 2
   \<and> in_range 0.5 2 (tempoModifier (setTempoModifier new_engine (Fin 10)))
   \<and> PosInf \<noteq> NaN
   \<and> in_range 0.5 2 (tempoModifier (setTempoModifier new_engine PosInf))
   \<and> in_range 0.5 2 (Fin 1.25)
   \<and> tempoModifier (setTempoModifier new_engine (Fin 1.25)) = Fin 1.25
   \<and> tempoModifier (setTempoModifier new_engine (Fin 0.01)) = Fin 0.5"
  using setTempoModifier_clamps[of "Fin 10" new_engine]
    setTempoModifier_clamps[of PosInf new_engine]
    setTempoModifier_clamps[of "Fin 1.25" new_engine]
  by (simp add: setTempoModifier_def)

lemma nextStep_once:
  assumes "trackData st = Some td" "bpm td = Fin b" "0 < b" "tempoModifier st = Fin m" "0 < m"
    "nextNoteTime st = Fin t"
  shows "nextStep st =
     st\<lparr>nextNoteTime := Fin (t + 0.25 * 60 / (b * m)),
        currentStep := (currentStep st + 1) mod 16\<rparr>"
  using assms by (simp add: nextStep_def secondsPerBeat_def currentBpm_def)

lemma nextStep_iter:
  assumes "trackData st = Some td" "bpm td = Fin b" "0 < b" "tempoModifier st = Fin m" "0 < m"
    "nextNoteTime st = Fin t" "currentStep st < 16"
  shows "(nextStep ^^ n) st =
     st\<lparr>nextNoteTime := Fin (t + of_nat n * (0.25 * 60 / (b * m))),
        currentStep := (currentStep st + n) mod 16\<rparr>"
proof (induction n)
  case 0
  show ?case using assms by simp
next
  case (Suc n)
  let ?s = "st\<lparr>nextNoteTime := Fin (t + of_nat n * (0.25 * 60 / (b * m))),
        currentStep := (currentStep st + n) mod 16\<rparr>"
  have "(nextStep ^^ Suc n) st = nextStep ?s"
    by (simp add: Suc)
  also have "\<dots> =
      ?s\<lparr>nextNoteTime := Fin ((t + of_nat n * (0.25 * 60 / (b * m))) + 0.25 * 60 / (b * m)),
         currentStep := (currentStep ?s + 1) mod 16\<rparr>"
    by (rule nextStep_once[where td = td and b = b and m = m]) (use assms in simp_all)
  also have "\<dots> =
      st\<lparr>nextNoteTime := Fin (t + of_nat (Suc n) * (0.25 * 60 / (b * m))),
         currentStep := (currentStep st + Suc n) mod 16\<rparr>"
    by (simp add: algebra_simps add_divide_distrib mod_Suc_eq)
  finally show ?case .
qed

text \<open>
  C2. With a track of tempo \<open>b > 0\<close> loaded, a stored modifier \<open>m > 0\<close> and a step
  index in 0..15, one advance adds \<open>0.25 * 60 / (b * m)\<close> to the next trigger time and
  increments the step index modulo 16, leaving the modifier and the track as they are;
  sixteen advances bring the step index back and add \<open>16 * 0.25 * 60 / (b * m)\<close>. The
  sums are the exact ones, which the engine's doubles follow up to rounding.
\<close>

theorem nextStep_period:
  assumes "trackData st = Some td" and "bpm td = Fin b" and "0 < b"
    and "tempoModifier st = Fin m" and "0 < m"
    and "nextNoteTime st = Fin t" and "currentStep st < 16"
  shows "currentStep ((nextStep ^^ 16) st) = currentStep st
     \<and> nextNoteTime ((nextStep ^^ 16) st) = Fin (t + 16 * 0.25 * 60 / (b * m))
     \<and> nextNoteTime (nextStep st) = Fin (t + 0.25 * 60 / (b * m))
     \<and> currentStep (nextStep st) = (currentStep st + 1) mod 16
     \<and> tempoModifier (nextStep st) = tempoModifier st
     \<and> trackData (nextStep st) = trackData st"
  using assms nextStep_iter[OF assms, of 16] nextStep_once[OF assms(1-6)]
  by simp

lemma ready_engine_fields:
  "trackData ready_engine = Some scenario_track"
  "ctx ready_engine = Some Running"
  "masterGain ready_engine = Some (GainNode (new_param 0.5))"
  "reverbSend ready_engine = Some (GainNode (new_param 0))"
  "distortionNode ready_engine = True"
  "tempoModifier ready_engine = Fin 1"
  "nextNoteTime ready_engine = Fin 0"
  "currentStep ready_engine = 0"
  "voices ready_engine = []"
  "bassDistortionActive ready_engine = False"
  "customBuffer ready_engine = None"
  by (simp_all add: ready_engine_def loadTrack_def init_def new_engine_def)

theorem nextStep_period_witness:
  "currentStep ((nextStep ^^ 16) ready_engine) = 0
   \<and> nextNoteTime ((nextStep ^^ 16) ready_engine) = Fin 2
   \<and> nextNoteTime (nextStep ready_engine) = Fin 0.125
   \<and> currentStep (nextStep ready_engine) = 1"
proof -
  have b: "bpm scenario_track = Fin 120"
    by (simp add: scenario_track_def)
  have "currentStep ready_engine < 16"
    by (simp add: ready_engine_fields)
  from nextStep_period[OF ready_engine_fields(1) b _ ready_engine_fields(6) _
      ready_engine_fields(7) this]
  show ?thesis
    by (simp add: ready_engine_fields)
qed

section \<open>Loading a track\<close>

text \<open>
  C4. \<^verbatim>\<open>loadTrack\<close> sets the step index to 0 and replaces the track; putting the old
  track and step index back gives the engine it started from, so every other field is as
  it was: among them the next trigger time, the playing flag and the pending poll, the
  tempo modifier, the mute flag and the bass-distortion flag.
\<close>

theorem loadTrack_frame:
  "currentStep (loadTrack st data) = 0
   \<and> trackData (loadTrack st data) = Some data
   \<and> (loadTrack st data)\<lparr>trackData := trackData st, currentStep := currentStep st\<rparr> = st
   \<and> nextNoteTime (loadTrack st data) = nextNoteTime st
   \<and> isPlaying (loadTrack st data) = isPlaying st
   \<and> timerID (loadTrack st data) = timerID st
   \<and> tempoModifier (loadTrack st data) = tempoModifier st
   \<and> isCustomMuted (loadTrack st data) = isCustomMuted st
   \<and> bassDistortionActive (loadTrack st data) = bassDistortionActive st
   \<and> customBuffer (loadTrack st data) = customBuffer st
   \<and> voices (loadTrack st data) = voices st"
  by (simp add: loadTrack_def)

section \<open>Loading a custom sample\<close>

text \<open>
  C9. When the decoder accepts the input, \<^verbatim>\<open>loadCustomSample\<close> stores the decoded
  buffer and clears the mute flag, whatever the flag was, and returns normally.
\<close>

theorem loadCustomSample_unmutes:
  assumes "decode arrayBuffer = Inr buffer"
  shows "\<exists>st' out. loadCustomSample decode fresh st arrayBuffer = Inr (st', out)
     \<and> isCustomMuted st' = False \<and> customBuffer st' = Some buffer"
  using assms by (cases "ctx st = None") (auto simp: loadCustomSample_def Let_def init_def)

theorem loadCustomSample_unmutes_witness:
  "isCustomMuted (muteCustomTrack ready_engine True) = True
   \<and> (\<exists>st' out.
        loadCustomSample accept_all Running (muteCustomTrack ready_engine True) [1, 2]
          = Inr (st', out)
        \<and> isCustomMuted st' = False \<and> customBuffer st' = Some [1, 2])"
proof -
  have "accept_all [1, 2] = Inr [1, 2]"
    by (simp add: accept_all_def)
  from loadCustomSample_unmutes[of accept_all "[1, 2]" "[1, 2]", OF this]
  show ?thesis
    by (simp add: muteCustomTrack_def)
qed

text \<open>
  C10, as stated: a failed decode leaves the engine state unchanged. On an engine that
  has not been initialised it does not: the lazy \<^verbatim>\<open>init\<close> runs before the decoder, and
  the graph it builds stays.
\<close>

theorem loadCustomSample_failure_counterexample:
  "loadCustomSample reject_all Running new_engine [0]
     = Inr (init Running new_engine, [''Failed to decode custom audio:''])
   \<and> init Running new_engine \<noteq> new_engine"
proof -
  have "ctx (init Running new_engine) \<noteq> ctx new_engine"
    by (simp add: init_def new_engine_def)
  then have "init Running new_engine \<noteq> new_engine"
    by metis
  then show ?thesis
    by (simp add: loadCustomSample_def Let_def reject_all_def init_def new_engine_def)
qed

text \<open>
  C10, amended. When the decoder rejects the input, \<^verbatim>\<open>loadCustomSample\<close> returns
  normally, the custom buffer and the mute flag are as before, and the engine is the one
  before the call if it was initialised, and that engine after \<^verbatim>\<open>init\<close> otherwise.
\<close>

theorem loadCustomSample_failure:
  assumes "decode arrayBuffer = Inl e"
  shows "\<exists>st' out. loadCustomSample decode fresh st arrayBuffer = Inr (st', out)
     \<and> customBuffer st' = customBuffer st
     \<and> isCustomMuted st' = isCustomMuted st
     \<and> st' = (if ctx st = None then init fresh st else st)"
  using assms by (cases "ctx st = None") (auto simp: loadCustomSample_def Let_def init_def)

theorem loadCustomSample_failure_witness:
  "\<exists>st' out. loadCustomSample reject_all Running (muteCustomTrack ready_engine True) [0]
       = Inr (st', out)
     \<and> customBuffer st' = None
     \<and> isCustomMuted st' = True
     \<and> st' = muteCustomTrack ready_engine True"
proof -
  have "reject_all [0] = Inl EncodingError"
    by (simp add: reject_all_def)
  from loadCustomSample_failure[of reject_all "[0]" EncodingError Running
      "muteCustomTrack ready_engine True", OF this]
  show ?thesis
    by (simp add: muteCustomTrack_def ready_engine_fields)
qed

section \<open>The step dispatcher\<close>

text \<open>
  What one run of \<^verbatim>\<open>scheduleStep\<close> adds to the graph of an initialised engine with a
  track loaded: one list per statement, in the order of the statements.
\<close>

lemma scheduleStep_voices:
  assumes td: "trackData st = Some td" and c: "ctx st \<noteq> None" and g: "masterGain st \<noteq> None"
  shows "voices (scheduleStep now st s t) =
     voices st @ kick_part td s t @ hat_part td s t @ bass_part st td s t @ lead_part td s t
     @ sfx_part td s t @ custom_part st td s t"
    (is "_ = voices st @ ?K @ ?H @ ?B @ ?L @ ?S @ ?C")
proof -
  define s0 where "s0 =
    (if onStep st
     then st\<lparr>timeouts := timeouts st @ [(s, Math_max (Fin 0) ((t - Fin now) * Fin 1000))]\<rparr>
     else st)"
  define s1 where "s1 =
    (if array_get (kick (sequences td)) s = Some True
     then triggerKick s0 t (kickPunch (drumSettings td)) else s0)"
  define s2 where "s2 =
    (if array_get (hat (sequences td)) s = Some True
     then triggerHat s1 t (hatBright (drumSettings td)) else s1)"
  define s3 where "s3 =
    (case truthy_note (array_get (bass (sequences td)) s) of
       None \<Rightarrow> s2
     | Some bassNote \<Rightarrow>
         if truthy (NOTE_FREQS_get bassNote)
         then triggerBass s2 t (NOTE_FREQS_get bassNote) (bassSettings td)
         else s2)"
  define s4 where "s4 =
    (case truthy_note (array_get (lead (sequences td)) s) of
       None \<Rightarrow> s3
     | Some leadNote \<Rightarrow>
         if truthy (NOTE_FREQS_get leadNote)
         then triggerLead s3 t (NOTE_FREQS_get leadNote) (synthSettings td)
         else s3)"
  define s5 where "s5 =
    (case sfx (sequences td) of
       None \<Rightarrow> s4
     | Some xs \<Rightarrow>
         if array_get xs s = Some True
         then (case soundEffect td of
                 None \<Rightarrow> s4
               | Some effect \<Rightarrow> if effect = NoEffect then s4 else triggerSFX s4 t effect)
         else s4)"
  define s6 where "s6 =
    (if customBuffer s5 \<noteq> None
        \<and> (case custom (sequences td) of None \<Rightarrow> False
           | Some xs \<Rightarrow> array_get xs s = Some True)
        \<and> \<not> isCustomMuted s5
     then triggerCustomSample s5 t else s5)"
  have run: "scheduleStep now st s t = s6"
    unfolding scheduleStep_def
    apply (simp only: td option.case c g if_False simp_thms)
    apply (fold s0_def, subst Let_def)
    apply (fold s1_def, subst Let_def)
    apply (fold s2_def, subst Let_def)
    apply (fold s3_def, subst Let_def)
    apply (fold s4_def, subst Let_def)
    apply (fold s5_def, subst Let_def)
    apply (subst Let_def)
    apply (fold s6_def, subst Let_def)
    apply (rule refl)
    done
  have f0: "ctx s0 = ctx st" "masterGain s0 = masterGain st"
    "bassDistortionActive s0 = bassDistortionActive st" "distortionNode s0 = distortionNode st"
    "customBuffer s0 = customBuffer st" "isCustomMuted s0 = isCustomMuted st"
    and v0: "voices s0 = voices st"
    by (simp_all add: s0_def)
  have e1: "s1 = s0\<lparr>voices := voices s0 @ ?K\<rparr>"
    using f0(1,2) c g by (simp add: s1_def triggerKick_def kick_part_def)
  have f1: "ctx s1 = ctx st" "masterGain s1 = masterGain st"
    "bassDistortionActive s1 = bassDistortionActive st" "distortionNode s1 = distortionNode st"
    "customBuffer s1 = customBuffer st" "isCustomMuted s1 = isCustomMuted st"
    and v1: "voices s1 = voices st @ ?K"
    by (subst e1, simp add: f0 v0)+
  have e2: "s2 = s1\<lparr>voices := voices s1 @ ?H\<rparr>"
    using f1(1,2) c g by (simp add: s2_def triggerHat_def hat_part_def)
  have f2: "ctx s2 = ctx st" "masterGain s2 = masterGain st"
    "bassDistortionActive s2 = bassDistortionActive st" "distortionNode s2 = distortionNode st"
    "customBuffer s2 = customBuffer st" "isCustomMuted s2 = isCustomMuted st"
    and v2: "voices s2 = voices st @ ?K @ ?H"
    by (subst e2, simp add: f1 v1)+
  have e3: "s3 = s2\<lparr>voices := voices s2 @ ?B\<rparr>"
    using f2(1-4) c g
    by (simp add: s3_def triggerBass_def bass_graph_def bass_part_def split: option.splits)
  have f3: "ctx s3 = ctx st" "masterGain s3 = masterGain st"
    "customBuffer s3 = customBuffer st" "isCustomMuted s3 = isCustomMuted st"
    and v3: "voices s3 = voices st @ ?K @ ?H @ ?B"
    by (subst e3, simp add: f2 v2)+
  have e4: "s4 = s3\<lparr>voices := voices s3 @ ?L\<rparr>"
    using f3(1,2) c g by (simp add: s4_def triggerLead_def lead_part_def split: option.splits)
  have f4: "ctx s4 = ctx st" "masterGain s4 = masterGain st"
    "customBuffer s4 = customBuffer st" "isCustomMuted s4 = isCustomMuted st"
    and v4: "voices s4 = voices st @ ?K @ ?H @ ?B @ ?L"
    by (subst e4, simp add: f3 v3)+
  have e5: "s5 = s4\<lparr>voices := voices s4 @ ?S\<rparr>"
    using f4(1,2) c g by (simp add: s5_def triggerSFX_def sfx_part_def split: option.splits)
  have f5: "ctx s5 = ctx st" "masterGain s5 = masterGain st"
    "customBuffer s5 = customBuffer st" "isCustomMuted s5 = isCustomMuted st"
    and v5: "voices s5 = voices st @ ?K @ ?H @ ?B @ ?L @ ?S"
    by (subst e5, simp add: f4 v4)+
  have e6: "s6 = s5\<lparr>voices := voices s5 @ ?C\<rparr>"
    using f5 c g
    by (simp add: s6_def triggerCustomSample_def custom_part_def split: option.splits)
  have v6: "voices s6 = voices st @ ?K @ ?H @ ?B @ ?L @ ?S @ ?C"
    by (subst e6, simp add: v5)
  show ?thesis
    unfolding run by (rule v6)
qed

lemma scheduleStep_new_voices:
  assumes "trackData st = Some td" and "ctx st \<noteq> None" and "masterGain st \<noteq> None"
  shows "new_voices st (scheduleStep now st s t) =
     kick_part td s t @ hat_part td s t @ bass_part st td s t @ lead_part td s t
     @ sfx_part td s t @ custom_part st td s t"
  by (simp add: new_voices_def scheduleStep_voices[OF assms])

lemma part_shapes:
  "kick_part td s t = [] \<or> (\<exists>g. kick_part td s t = [KickVoice g])"
  "hat_part td s t = [] \<or> (\<exists>b. hat_part td s t = [HatVoice t b])"
  "bass_part st td s t = [] \<or> (\<exists>g. bass_part st td s t = [BassVoice g])"
  "lead_part td s t = [] \<or> (\<exists>g. lead_part td s t = [LeadVoice g])"
  "sfx_part td s t = [] \<or> (\<exists>e. sfx_part td s t = [SfxVoice e t])"
  "custom_part st td s t = [] \<or> (\<exists>b. custom_part st td s t = [CustomVoice b t])"
  by (auto simp: kick_part_def hat_part_def bass_part_def lead_part_def sfx_part_def
      custom_part_def split: option.splits)

lemma no_kick_elsewhere:
  "filter is_kick (hat_part td s t) = []" "filter is_kick (bass_part st td s t) = []"
  "filter is_kick (lead_part td s t) = []" "filter is_kick (sfx_part td s t) = []"
  "filter is_kick (custom_part st td s t) = []"
  using part_shapes(1,2,4,5)[of td s t] part_shapes(3,6)[of st td s t] by auto

lemma no_bass_elsewhere:
  "filter is_bass (kick_part td s t) = []" "filter is_bass (hat_part td s t) = []"
  "filter is_bass (lead_part td s t) = []" "filter is_bass (sfx_part td s t) = []"
  "filter is_bass (custom_part st td s t) = []"
  using part_shapes(1,2,4,5)[of td s t] part_shapes(3,6)[of st td s t] by auto

lemma no_lead_elsewhere:
  "filter is_lead (kick_part td s t) = []" "filter is_lead (hat_part td s t) = []"
  "filter is_lead (bass_part st td s t) = []" "filter is_lead (sfx_part td s t) = []"
  "filter is_lead (custom_part st td s t) = []"
  using part_shapes(1,2,4,5)[of td s t] part_shapes(3,6)[of st td s t] by auto

lemma all_kick_part: "filter is_kick (kick_part td s t) = kick_part td s t"
  using part_shapes(1)[of td s t] by auto

lemma all_bass_part: "filter is_bass (bass_part st td s t) = bass_part st td s t"
  using part_shapes(3)[of st td s t] by auto

lemma all_lead_part: "filter is_lead (lead_part td s t) = lead_part td s t"
  using part_shapes(4)[of td s t] by auto

lemma graph_starts_kick: "graph_starts (kick_graph t p) = [t]"
  by (simp add: graph_starts_def kick_graph_def Let_def)

text \<open>
  C1. On an initialised engine with a track loaded, a run of the dispatcher for step
  \<open>s\<close> and time \<open>t\<close> adds exactly one kick voice when \<open>kick[s]\<close> is true, the chain
  \<^verbatim>\<open>triggerKick\<close> builds for \<open>t\<close> and the track's punch, whose oscillator starts at
  \<open>t\<close>; it adds no kick voice otherwise.
\<close>

theorem scheduleStep_kick:
  assumes "trackData st = Some td" and "ctx st \<noteq> None" and "masterGain st \<noteq> None"
  shows "filter is_kick (new_voices st (scheduleStep now st s t)) =
       (if array_get (kick (sequences td)) s = Some True
        then [KickVoice (kick_graph t (kickPunch (drumSettings td)))] else [])
     \<and> graph_starts (kick_graph t (kickPunch (drumSettings td))) = [t]"
proof -
  have "filter is_kick (new_voices st (scheduleStep now st s t)) = kick_part td s t"
    by (simp add: scheduleStep_new_voices[OF assms] no_kick_elsewhere all_kick_part)
  then show ?thesis
    by (simp only: kick_part_def graph_starts_kick simp_thms)
qed

theorem scheduleStep_kick_witness:
  "filter is_kick (new_voices ready_engine (scheduleStep 0 ready_engine 4 (Fin 0.6)))
     = [KickVoice (kick_graph (Fin 0.6) (Fin 0.5))]
   \<and> graph_starts (kick_graph (Fin 0.6) (Fin 0.5)) = [Fin 0.6]
   \<and> filter is_kick (new_voices ready_engine (scheduleStep 0 ready_engine 5 (Fin 0.725))) = []"
proof -
  have c: "ctx ready_engine \<noteq> None" and g: "masterGain ready_engine \<noteq> None"
    by (simp_all add: ready_engine_fields)
  have k4: "array_get (kick (sequences scenario_track)) 4 = Some True"
    and k5: "array_get (kick (sequences scenario_track)) 5 = Some False"
    and p: "kickPunch (drumSettings scenario_track) = Fin 0.5"
    by (simp_all add: scenario_track_def array_get_def)
  show ?thesis
    using scheduleStep_kick[OF ready_engine_fields(1) c g, of 0 4 "Fin 0.6"]
      scheduleStep_kick[OF ready_engine_fields(1) c g, of 0 5 "Fin 0.725"]
    by (simp add: k4 k5 p)
qed

lemma scheduleStep_bass:
  assumes "trackData st = Some td" and "ctx st \<noteq> None" and "masterGain st \<noteq> None"
  shows "filter is_bass (new_voices st (scheduleStep now st s t)) =
       (case truthy_note (array_get (bass (sequences td)) s) of
          None \<Rightarrow> []
        | Some n \<Rightarrow>
            if truthy (NOTE_FREQS_get n)
            then [BassVoice (bass_graph st t (NOTE_FREQS_get n) (bassSettings td))]
            else [])"
proof -
  have "filter is_bass (new_voices st (scheduleStep now st s t)) = bass_part st td s t"
    by (simp add: scheduleStep_new_voices[OF assms] no_bass_elsewhere all_bass_part)
  then show ?thesis
    by (simp only: bass_part_def)
qed

lemma scheduleStep_lead:
  assumes "trackData st = Some td" and "ctx st \<noteq> None" and "masterGain st \<noteq> None"
  shows "filter is_lead (new_voices st (scheduleStep now st s t)) =
       (case truthy_note (array_get (lead (sequences td)) s) of
          None \<Rightarrow> []
        | Some n \<Rightarrow>
            if truthy (NOTE_FREQS_get n)
            then [LeadVoice (lead_graph t (NOTE_FREQS_get n) (synthSettings td))]
            else [])"
proof -
  have "filter is_lead (new_voices st (scheduleStep now st s t)) = lead_part td s t"
    by (simp add: scheduleStep_new_voices[OF assms] no_lead_elsewhere all_lead_part)
  then show ?thesis
    by (simp only: lead_part_def)
qed

text \<open>
  The guard of the bass and lead statements lets a name through when the table has it, and
  also when \<^verbatim>\<open>Object.prototype\<close> has it; every frequency of the table is non-zero.
\<close>

lemma NOTE_FREQS_nonzero: "map_of NOTE_FREQS n = Some f \<Longrightarrow> f \<noteq> 0"
proof -
  have "list_all (\<lambda>e. snd e \<noteq> 0) NOTE_FREQS"
    by (simp add: NOTE_FREQS_def)
  then show "map_of NOTE_FREQS n = Some f \<Longrightarrow> f \<noteq> 0"
    by (auto simp: list_all_iff dest!: map_of_SomeD)
qed

lemma truthy_NOTE_FREQS_get:
  "truthy (NOTE_FREQS_get n) = (map_of NOTE_FREQS n \<noteq> None \<or> n \<in> set Object_prototype)"
  by (auto simp: NOTE_FREQS_get_def dest: NOTE_FREQS_nonzero split: option.splits)

lemma scheduleStep_bass_resolvable:
  assumes "trackData st = Some td" and "ctx st \<noteq> None" and "masterGain st \<noteq> None"
    and "n \<notin> set Object_prototype"
    and "array_get (bass (sequences td)) s = Some (Some n)"
  shows "filter is_bass (new_voices st (scheduleStep now st s t)) =
       (case map_of NOTE_FREQS n of
          None \<Rightarrow> []
        | Some f \<Rightarrow> [BassVoice (bass_graph st t (Num (Fin f)) (bassSettings td))])"
proof (cases "n = []")
  case True
  have "map_of NOTE_FREQS [] = None"
    by (simp add: NOTE_FREQS_def)
  with True assms(5) show ?thesis
    unfolding scheduleStep_bass[OF assms(1-3)] by simp
next
  case False
  with assms(4,5) show ?thesis
    unfolding scheduleStep_bass[OF assms(1-3)]
    by (auto simp: truthy_NOTE_FREQS_get NOTE_FREQS_get_def dest: NOTE_FREQS_nonzero
        split: option.splits)
qed

lemma inherited_key_engine_fields:
  "trackData inherited_key_engine = Some inherited_key_track"
  "ctx inherited_key_engine = Some Running"
  "masterGain inherited_key_engine = Some (GainNode (new_param 0.5))"
  "bassDistortionActive inherited_key_engine = False"
  by (simp_all add: inherited_key_engine_def loadTrack_def init_def new_engine_def)

text \<open>
  C5. A bass or lead voice is to fire only for a name of the note table, and any other
  slot is to pass silently. With \<^verbatim>\<open>"constructor"\<close> in a bass slot the table has no such
  note, yet the guard \<^verbatim>\<open>NOTE_FREQS[bassNote]\<close> finds the member inherited from
  \<^verbatim>\<open>Object.prototype\<close>, which is truthy: the dispatcher calls \<^verbatim>\<open>triggerBass\<close> with it,
  and the oscillator's frequency is assigned a value that converts to \<^verbatim>\<open>NaN\<close>.
\<close>

theorem scheduleStep_inherited_key:
  "array_get (bass (sequences inherited_key_track)) 0 = Some (Some ''constructor'')
   \<and> map_of NOTE_FREQS ''constructor'' = None
   \<and> filter is_bass (new_voices inherited_key_engine
        (scheduleStep 0 inherited_key_engine 0 (Fin 0.1)))
     = [BassVoice (normal_bass_graph (Fin 0.1) (Inherited ''constructor'')
         \<lparr>bass_waveform = Square, filterFreq = Fin 400\<rparr>)]
   \<and> ToNumber (Inherited ''constructor'') = NaN"
proof -
  have c: "ctx inherited_key_engine \<noteq> None" and g: "masterGain inherited_key_engine \<noteq> None"
    by (simp_all add: inherited_key_engine_fields)
  have slot: "array_get (bass (sequences inherited_key_track)) 0 = Some (Some ''constructor'')"
    by (simp add: inherited_key_track_def scenario_track_def array_get_def)
  have absent: "map_of NOTE_FREQS ''constructor'' = None"
    by (simp add: NOTE_FREQS_def)
  have found: "NOTE_FREQS_get ''constructor'' = Inherited ''constructor''"
    by (simp add: NOTE_FREQS_get_def absent Object_prototype_def)
  have settings: "bassSettings inherited_key_track = \<lparr>bass_waveform = Square, filterFreq = Fin 400\<rparr>"
    by (simp add: inherited_key_track_def scenario_track_def)
  show ?thesis
    unfolding scheduleStep_bass[OF inherited_key_engine_fields(1) c g]
    by (simp add: slot absent found settings bass_graph_def inherited_key_engine_fields)
qed

section \<open>Bass and lead chains\<close>

lemma triggerBass_new_voices:
  assumes "ctx st \<noteq> None" and "masterGain st \<noteq> None"
  shows "voices (triggerBass st t f b) = voices st @ [BassVoice (bass_graph st t f b)]"
  using assms by (simp add: triggerBass_def bass_graph_def)

lemma chain_structure_normal:
  "chain_structure (normal_bass_graph t f b) =
     ([OscillatorClass, BiquadFilterClass, GainClass],
      [(Local ''osc'', Local ''filter''), (Local ''filter'', Local ''gain''),
       (Local ''gain'', Shared ''masterGain'')])"
  by (simp add: chain_structure_def normal_bass_graph_def Let_def)

lemma chain_structure_distorted:
  "chain_structure (distorted_bass_graph shaper t f b) =
     ([OscillatorClass, BiquadFilterClass, GainClass, GainClass],
      [(Local ''osc'', Local ''filter''), (Local ''filter'', Local ''distGain'')]
      @ (if shaper
         then [(Local ''distGain'', Shared ''distortionNode''),
               (Shared ''distortionNode'', Local ''outGain'')]
         else [(Local ''distGain'', Local ''outGain'')])
      @ [(Local ''outGain'', Shared ''masterGain'')])"
  by (simp add: chain_structure_def distorted_bass_graph_def Let_def)

lemma distorted_bass_path:
  "distorted_bass_graph True (Fin t) f b =
     \<lparr>nodes =
        [(''osc'',
          OscillatorNode Sawtooth \<lparr>pvalue = ToNumber f, events = []\<rparr> (Some (Fin t))
            (Some (Fin (t + 0.4)))),
         (''filter'',
          BiquadFilterNode Lowpass
            \<lparr>pvalue = Fin 350,
             events =
               [SetValueAtTime (filterFreq b * Fin 2.5) (Fin t),
                ExponentialRampToValueAtTime (filterFreq b) (Fin (t + 0.3))]\<rparr>
            \<lparr>pvalue = Fin 15, events = []\<rparr>),
         (''distGain'', GainNode \<lparr>pvalue = Fin 5, events = []\<rparr>),
         (''outGain'',
          GainNode
            \<lparr>pvalue = Fin 1,
             events =
               [SetValueAtTime (Fin 0.6) (Fin t),
                ExponentialRampToValueAtTime (Fin 0.001) (Fin (t + 0.3))]\<rparr>)],
      wires =
        [(Local ''osc'', Local ''filter''), (Local ''filter'', Local ''distGain''),
         (Local ''distGain'', Shared ''distortionNode''),
         (Shared ''distortionNode'', Local ''outGain''),
         (Local ''outGain'', Shared ''masterGain'')]\<rparr>"
  by (simp add: distorted_bass_graph_def Let_def new_param_def set_value_def
      setValueAtTime_def exponentialRampToValueAtTime_def)

lemma normal_bass_path:
  "normal_bass_graph (Fin t) f b =
     \<lparr>nodes =
        [(''osc'',
          OscillatorNode (bass_waveform b) \<lparr>pvalue = ToNumber f, events = []\<rparr> (Some (Fin t))
            (Some (Fin (t + 0.4)))),
         (''filter'',
          BiquadFilterNode Lowpass
            \<lparr>pvalue = Fin 350,
             events =
               [SetValueAtTime (filterFreq b) (Fin t),
                LinearRampToValueAtTime (filterFreq b * Fin 0.8) (Fin (t + 0.2))]\<rparr>
            \<lparr>pvalue = Fin 2, events = []\<rparr>),
         (''gain'',
          GainNode
            \<lparr>pvalue = Fin 1,
             events =
               [SetValueAtTime (Fin 0.8) (Fin t),
                ExponentialRampToValueAtTime (Fin 0.001) (Fin (t + 0.3))]\<rparr>)],
      wires =
        [(Local ''osc'', Local ''filter''), (Local ''filter'', Local ''gain''),
         (Local ''gain'', Shared ''masterGain'')]\<rparr>"
  by (simp add: normal_bass_graph_def Let_def new_param_def set_value_def
      setValueAtTime_def exponentialRampToValueAtTime_def linearRampToValueAtTime_def)

text \<open>
  C6. Two bass notes triggered on an initialised engine, in the states \<open>st1\<close> and
  \<open>st2\<close> the engine has at the two trigger times (the wave shaper is there at both or at
  neither). Each trigger adds one bass chain and leaves the earlier voices as they are. If
  the bass-distortion flag differs between the two states the chains differ in structure;
  if it is the same they have the same structure. With the flag set and the wave shaper of
  \<^verbatim>\<open>init\<close> the chain is sawtooth oscillator, lowpass with Q 15 sweeping from 2.5 times the
  cutoff to the cutoff, gain 5, the shared distortion node, envelope, master gain; with
  the flag clear it is an oscillator of the track's waveform, lowpass with Q 2, envelope,
  master gain, and does not touch the distortion node. \<^verbatim>\<open>setBassDistortion\<close> changes
  no voice already in the graph and decides the chain of the next trigger.
\<close>

theorem triggerBass_chains:
  assumes "ctx st1 \<noteq> None" and "masterGain st1 \<noteq> None"
    and "ctx st2 \<noteq> None" and "masterGain st2 \<noteq> None"
    and "distortionNode st1 = distortionNode st2"
  shows "voices (triggerBass st1 t1 f1 b1) = voices st1 @ [BassVoice (bass_graph st1 t1 f1 b1)]
     \<and> voices (triggerBass st2 t2 f2 b2) = voices st2 @ [BassVoice (bass_graph st2 t2 f2 b2)]
     \<and> (bassDistortionActive st1 \<noteq> bassDistortionActive st2 \<longrightarrow>
          chain_structure (bass_graph st1 t1 f1 b1) \<noteq> chain_structure (bass_graph st2 t2 f2 b2))
     \<and> (bassDistortionActive st1 = bassDistortionActive st2 \<longrightarrow>
          chain_structure (bass_graph st1 t1 f1 b1) = chain_structure (bass_graph st2 t2 f2 b2))
     \<and> (bassDistortionActive st1 \<and> distortionNode st1 \<longrightarrow>
          uses_shared (bass_graph st1 (Fin r) f1 b1) ''distortionNode''
          \<and> bass_graph st1 (Fin r) f1 b1 =
           \<lparr>nodes =
              [(''osc'',
                OscillatorNode Sawtooth \<lparr>pvalue = ToNumber f1, events = []\<rparr> (Some (Fin r))
                  (Some (Fin (r + 0.4)))),
               (''filter'',
                BiquadFilterNode Lowpass
                  \<lparr>pvalue = Fin 350,
                   events =
                     [SetValueAtTime (filterFreq b1 * Fin 2.5) (Fin r),
                      ExponentialRampToValueAtTime (filterFreq b1) (Fin (r + 0.3))]\<rparr>
                  \<lparr>pvalue = Fin 15, events = []\<rparr>),
               (''distGain'', GainNode \<lparr>pvalue = Fin 5, events = []\<rparr>),
               (''outGain'',
                GainNode
                  \<lparr>pvalue = Fin 1,
                   events =
                     [SetValueAtTime (Fin 0.6) (Fin r),
                      ExponentialRampToValueAtTime (Fin 0.001) (Fin (r + 0.3))]\<rparr>)],
            wires =
              [(Local ''osc'', Local ''filter''), (Local ''filter'', Local ''distGain''),
               (Local ''distGain'', Shared ''distortionNode''),
               (Shared ''distortionNode'', Local ''outGain''),
               (Local ''outGain'', Shared ''masterGain'')]\<rparr>)
     \<and> (\<not> bassDistortionActive st1 \<longrightarrow>
          \<not> uses_shared (bass_graph st1 (Fin r) f1 b1) ''distortionNode''
          \<and> bass_graph st1 (Fin r) f1 b1 =
           \<lparr>nodes =
              [(''osc'',
                OscillatorNode (bass_waveform b1) \<lparr>pvalue = ToNumber f1, events = []\<rparr> (Some (Fin r))
                  (Some (Fin (r + 0.4)))),
               (''filter'',
                BiquadFilterNode Lowpass
                  \<lparr>pvalue = Fin 350,
                   events =
                     [SetValueAtTime (filterFreq b1) (Fin r),
                      LinearRampToValueAtTime (filterFreq b1 * Fin 0.8) (Fin (r + 0.2))]\<rparr>
                  \<lparr>pvalue = Fin 2, events = []\<rparr>),
               (''gain'',
                GainNode
                  \<lparr>pvalue = Fin 1,
                   events =
                     [SetValueAtTime (Fin 0.8) (Fin r),
                      ExponentialRampToValueAtTime (Fin 0.001) (Fin (r + 0.3))]\<rparr>)],
            wires =
              [(Local ''osc'', Local ''filter''), (Local ''filter'', Local ''gain''),
               (Local ''gain'', Shared ''masterGain'')]\<rparr>)
     \<and> voices (setBassDistortion st1 active) = voices st1
     \<and> bass_graph (setBassDistortion st1 active) t1 f1 b1 =
         (if active then distorted_bass_graph (distortionNode st1) t1 f1 b1
          else normal_bass_graph t1 f1 b1)"
proof -
  have diff: "chain_structure (distorted_bass_graph shaper t f b)
      \<noteq> chain_structure (normal_bass_graph t' f' b')" for shaper t f b t' f' b'
    by (simp add: chain_structure_normal chain_structure_distorted)
  have differ: "bassDistortionActive st1 \<noteq> bassDistortionActive st2 \<longrightarrow>
      chain_structure (bass_graph st1 t1 f1 b1) \<noteq> chain_structure (bass_graph st2 t2 f2 b2)"
    using diff[of "distortionNode st1" t1 f1 b1 t2 f2 b2]
      diff[of "distortionNode st2" t2 f2 b2 t1 f1 b1]
    by (cases "bassDistortionActive st1"; cases "bassDistortionActive st2")
       (simp_all add: bass_graph_def)
  have same: "bassDistortionActive st1 = bassDistortionActive st2 \<longrightarrow>
      chain_structure (bass_graph st1 t1 f1 b1) = chain_structure (bass_graph st2 t2 f2 b2)"
    using assms(5)
    by (cases "bassDistortionActive st1"; cases "bassDistortionActive st2")
       (simp_all add: bass_graph_def chain_structure_normal chain_structure_distorted)
  have dist: "bassDistortionActive st1 \<and> distortionNode st1 \<longrightarrow>
      uses_shared (bass_graph st1 (Fin r) f1 b1) ''distortionNode''
      \<and> bass_graph st1 (Fin r) f1 b1 = distorted_bass_graph True (Fin r) f1 b1"
    by (simp add: bass_graph_def uses_shared_def distorted_bass_path)
  have norm: "\<not> bassDistortionActive st1 \<longrightarrow>
      \<not> uses_shared (bass_graph st1 (Fin r) f1 b1) ''distortionNode''
      \<and> bass_graph st1 (Fin r) f1 b1 = normal_bass_graph (Fin r) f1 b1"
    by (simp add: bass_graph_def uses_shared_def normal_bass_path)
  have flag: "voices (setBassDistortion st1 active) = voices st1"
    "bass_graph (setBassDistortion st1 active) t1 f1 b1 =
       (if active then distorted_bass_graph (distortionNode st1) t1 f1 b1
        else normal_bass_graph t1 f1 b1)"
    by (simp_all add: setBassDistortion_def bass_graph_def)
  show ?thesis
    unfolding distorted_bass_path[symmetric] normal_bass_path[symmetric]
    using triggerBass_new_voices[OF assms(1,2)] triggerBass_new_voices[OF assms(3,4)]
      differ same dist norm flag
    by blast
qed

lemma ready_engine_ready:
  "ctx ready_engine \<noteq> None" "masterGain ready_engine \<noteq> None"
  by (simp_all add: ready_engine_fields)

theorem triggerBass_chains_witness:
  "bassDistortionActive ready_engine \<noteq> bassDistortionActive (setBassDistortion ready_engine True)
   \<and> voices (triggerBass ready_engine (Fin 0.1) (Num (Fin 65.41)) (bassSettings scenario_track))
       = [BassVoice (normal_bass_graph (Fin 0.1) (Num (Fin 65.41)) (bassSettings scenario_track))]
   \<and> voices (triggerBass (setBassDistortion ready_engine True) (Fin 0.6) (Num (Fin 49))
        (bassSettings scenario_track))
       = [BassVoice (distorted_bass_graph True (Fin 0.6) (Num (Fin 49))
           (bassSettings scenario_track))]
   \<and> chain_structure (normal_bass_graph (Fin 0.1) (Num (Fin 65.41)) (bassSettings scenario_track))
       \<noteq> chain_structure (distorted_bass_graph True (Fin 0.6) (Num (Fin 49))
           (bassSettings scenario_track))
   \<and> uses_shared (distorted_bass_graph True (Fin 0.6) (Num (Fin 49))
        (bassSettings scenario_track)) ''distortionNode''
   \<and> \<not> uses_shared (normal_bass_graph (Fin 0.1) (Num (Fin 65.41))
        (bassSettings scenario_track)) ''distortionNode''"
proof -
  let ?on = "setBassDistortion ready_engine True"
  have on: "ctx ?on \<noteq> None" "masterGain ?on \<noteq> None"
    "distortionNode ready_engine = distortionNode ?on"
    "bassDistortionActive ?on" "distortionNode ?on"
    by (simp_all add: setBassDistortion_def ready_engine_fields)
  have a: "bass_graph ready_engine t f b = normal_bass_graph t f b" for t f b
    by (simp add: bass_graph_def ready_engine_fields)
  have b: "bass_graph ?on t f b = distorted_bass_graph True t f b" for t f b
    using on(4,5) by (simp add: bass_graph_def)
  have u: "uses_shared (distorted_bass_graph True (Fin 0.6) (Num (Fin 49))
        (bassSettings scenario_track)) ''distortionNode''"
    "\<not> uses_shared (normal_bass_graph (Fin 0.1) (Num (Fin 65.41))
        (bassSettings scenario_track)) ''distortionNode''"
    by (simp_all add: uses_shared_def distorted_bass_path normal_bass_path)
  show ?thesis
    using triggerBass_chains[OF ready_engine_ready on(1,2,3),
        where ?t1.0 = "Fin 0.1" and ?f1.0 = "Num (Fin 65.41)"
          and ?b1.0 = "bassSettings scenario_track"
          and ?t2.0 = "Fin 0.6" and ?f2.0 = "Num (Fin 49)"
          and ?b2.0 = "bassSettings scenario_track" and r = 0 and active = True]
      on(4) u
    by (simp add: a b ready_engine_fields)
qed

section \<open>The slapback tap of the lead voice\<close>

lemma triggerLead_new_voices:
  assumes "ctx st \<noteq> None" and "masterGain st \<noteq> None"
  shows "voices (triggerLead st t f s) = voices st @ [LeadVoice (lead_graph t f s)]"
  using assms by (simp add: triggerLead_def)

lemma lead_tap:
  "delay_time_of (lead_graph t f s) = Some (Fin (3 / 16))"
  "gain_of (lead_graph t f s) ''feedback'' = Some (Fin 0.3)"
  "gain_of (lead_graph t f s) ''delayGain'' = Some (Fin 0.3)"
  by (simp_all add: delay_time_of_def gain_of_def lead_graph_def Let_def set_value_def
      new_param_def)

lemma lead_tap_wires:
  "set [(Local ''gain'', Local ''delay''), (Local ''delay'', Local ''delayGain''),
        (Local ''delayGain'', Shared ''masterGain''), (Local ''delay'', Local ''feedback''),
        (Local ''feedback'', Local ''delay'')]
     \<subseteq> set (wires (lead_graph t f s))"
  by (simp add: lead_graph_def Let_def)

lemma three_sixteenths_beat:
  "(Fin (3 / 16) = Fin (3 / 16) * x) = (x = Fin 1)"
  by (cases x) auto

text \<open>
  C7, as stated: the delay time of the lead voice's tap is 3/16 of a beat at the track's
  tempo. At 120 bpm and modifier 1 a beat lasts half a second, and 3/16 of it is 0.09375 s;
  the lead voice the dispatcher adds at step 1 of the example track has a tap of 0.1875 s.
\<close>

theorem lead_delay_counterexample:
  "filter is_lead (new_voices ready_engine (scheduleStep 0 ready_engine 1 (Fin 0.225)))
     = [LeadVoice (lead_graph (Fin 0.225) (Num (Fin 440)) (synthSettings scenario_track))]
   \<and> delay_time_of (lead_graph (Fin 0.225) (Num (Fin 440)) (synthSettings scenario_track))
     = Some (Fin 0.1875)
   \<and> Fin 3 / Fin 16 * secondsPerBeat ready_engine scenario_track = Fin 0.09375
   \<and> delay_time_of (lead_graph (Fin 0.225) (Num (Fin 440)) (synthSettings scenario_track))
     \<noteq> Some (Fin 3 / Fin 16 * secondsPerBeat ready_engine scenario_track)"
proof -
  have slot: "truthy_note (array_get (lead (sequences scenario_track)) (Suc 0)) = Some ''A4''"
    by (simp add: scenario_track_def array_get_def)
  have found: "NOTE_FREQS_get ''A4'' = Num (Fin 440)"
    by (simp add: NOTE_FREQS_get_def NOTE_FREQS_def)
  have beat: "Fin 3 / Fin 16 * secondsPerBeat ready_engine scenario_track = Fin 0.09375"
    by (simp add: secondsPerBeat_def currentBpm_def ready_engine_fields scenario_track_def)
  show ?thesis
    unfolding scheduleStep_lead[OF ready_engine_fields(1) ready_engine_ready] beat
    by (simp add: slot found lead_tap)
qed

text \<open>
  C7, amended. Every lead voice triggered on an initialised engine has a slapback tap
  (the envelope feeds a delay, which feeds the master gain through a tap gain and feeds
  itself through a feedback gain) whose delay time is the constant 3/16 of a second,
  whatever the track tempo and the tempo modifier, with feedback gain 0.3 and tap level
  0.3. The delay equals 3/16 of a beat exactly when a beat lasts one second.
\<close>

theorem triggerLead_delay_tap:
  assumes "ctx st \<noteq> None" and "masterGain st \<noteq> None"
  shows "voices (triggerLead st t f s) = voices st @ [LeadVoice (lead_graph t f s)]
     \<and> delay_time_of (lead_graph t f s) = Some (Fin (3 / 16))
     \<and> gain_of (lead_graph t f s) ''feedback'' = Some (Fin 0.3)
     \<and> gain_of (lead_graph t f s) ''delayGain'' = Some (Fin 0.3)
     \<and> set [(Local ''gain'', Local ''delay''), (Local ''delay'', Local ''delayGain''),
             (Local ''delayGain'', Shared ''masterGain''), (Local ''delay'', Local ''feedback''),
             (Local ''feedback'', Local ''delay'')]
          \<subseteq> set (wires (lead_graph t f s))
     \<and> (delay_time_of (lead_graph t f s) = Some (Fin 3 / Fin 16 * secondsPerBeat st td))
         = (secondsPerBeat st td = Fin 1)"
  using triggerLead_new_voices[OF assms] lead_tap_wires[of t f s]
  by (simp add: lead_tap three_sixteenths_beat)

theorem triggerLead_delay_tap_witness:
  "voices (triggerLead ready_engine (Fin 0.225) (Num (Fin 440)) (synthSettings scenario_track))
     = [LeadVoice (lead_graph (Fin 0.225) (Num (Fin 440)) (synthSettings scenario_track))]
   \<and> delay_time_of (lead_graph (Fin 0.225) (Num (Fin 440)) (synthSettings scenario_track))
     = Some (Fin (3 / 16))
   \<and> gain_of (lead_graph (Fin 0.225) (Num (Fin 440)) (synthSettings scenario_track)) ''feedback''
     = Some (Fin 0.3)
   \<and> gain_of (lead_graph (Fin 0.225) (Num (Fin 440)) (synthSettings scenario_track)) ''delayGain''
     = Some (Fin 0.3)
   \<and> secondsPerBeat ready_engine scenario_track = Fin 0.5"
proof -
  have "secondsPerBeat ready_engine scenario_track = Fin 0.5"
    by (simp add: secondsPerBeat_def currentBpm_def ready_engine_fields scenario_track_def)
  then show ?thesis
    using triggerLead_delay_tap[OF ready_engine_ready, of "Fin 0.225" "Num (Fin 440)"
        "synthSettings scenario_track" scenario_track]
    by (simp add: ready_engine_fields)
qed

section \<open>Gesture effects\<close>

lemma lt_Fin_later: "lt x (Fin a) \<Longrightarrow> a \<le> b \<Longrightarrow> \<not> lt (Fin b) x"
  by (cases x) auto

lemma insert_event_last:
  "(\<And>x. x \<in> set xs \<Longrightarrow> \<not> lt (event_time e) (event_time x)) \<Longrightarrow> insert_event e xs = xs @ [e]"
  by (induction xs) auto

text \<open>
  The four calls of a gesture effect on a parameter: cancel from \<open>now\<close> on, anchor at
  the value the parameter has, then two ramps that end after \<open>now\<close>.
\<close>

lemma gesture_calls:
  assumes "event_time r1 = Fin (now + d1)" and "event_time r2 = Fin (now + d2)"
    and "0 \<le> d1" and "d1 \<le> d2"
  shows "insert_event r2 (insert_event r1
           (insert_event (SetValueAtTime v (Fin now))
              (filter (\<lambda>e. lt (event_time e) (Fin now)) xs))) =
         filter (\<lambda>e. lt (event_time e) (Fin now)) xs @ [SetValueAtTime v (Fin now), r1, r2]"
proof -
  let ?old = "filter (\<lambda>e. lt (event_time e) (Fin now)) xs"
  have old: "x \<in> set ?old \<Longrightarrow> \<not> lt (Fin (now + d)) (event_time x)" if "0 \<le> d" for x d
    using that lt_Fin_later[of "event_time x" now "now + d"] by auto
  have 1: "insert_event (SetValueAtTime v (Fin now)) ?old = ?old @ [SetValueAtTime v (Fin now)]"
    using old[of 0] by (intro insert_event_last) simp
  have 2: "insert_event r1 (?old @ [SetValueAtTime v (Fin now)])
      = (?old @ [SetValueAtTime v (Fin now)]) @ [r1]"
    using old[of d1] assms by (intro insert_event_last) auto
  have 3: "insert_event r2 ((?old @ [SetValueAtTime v (Fin now)]) @ [r1])
      = ((?old @ [SetValueAtTime v (Fin now)]) @ [r1]) @ [r2]"
    using old[of d2] assms by (intro insert_event_last) auto
  show ?thesis
    by (simp only: 1 2 3) simp
qed

lemma triggerReverb_param:
  assumes "reverbSend st = Some (GainNode p)"
  shows "reverbSend (triggerReverb st (Fin now)) =
     Some (GainNode (p\<lparr>events :=
       filter (\<lambda>e. lt (event_time e) (Fin now)) (events p)
       @ SetValueAtTime (pvalue p) (Fin now) # gesture_ramps ''reverb'' now\<rparr>))"
  using assms
  by (simp add: triggerReverb_def Let_def cancelScheduledValues_def setValueAtTime_def
      linearRampToValueAtTime_def exponentialRampToValueAtTime_def gesture_ramps_def
      gesture_calls[where ?d1.0 = "0.1" and ?d2.0 = "2"])

lemma triggerLowPass_param:
  assumes "masterFilter st = Some (BiquadFilterNode ty p q)"
  shows "masterFilter (triggerLowPass st (Fin now)) =
     Some (BiquadFilterNode ty (p\<lparr>events :=
       filter (\<lambda>e. lt (event_time e) (Fin now)) (events p)
       @ SetValueAtTime (pvalue p) (Fin now) # gesture_ramps ''filter'' now\<rparr>) q)"
  using assms
  by (simp add: triggerLowPass_def Let_def cancelScheduledValues_def setValueAtTime_def
      linearRampToValueAtTime_def exponentialRampToValueAtTime_def gesture_ramps_def
      gesture_calls[where ?d1.0 = "0.2" and ?d2.0 = "1.5"])

lemma triggerDistortion_param:
  assumes "distortionSend st = Some (GainNode p)"
  shows "distortionSend (triggerDistortion st (Fin now)) =
     Some (GainNode (p\<lparr>events :=
       filter (\<lambda>e. lt (event_time e) (Fin now)) (events p)
       @ SetValueAtTime (pvalue p) (Fin now) # gesture_ramps ''distortion'' now\<rparr>))"
  using assms
  by (simp add: triggerDistortion_def Let_def cancelScheduledValues_def setValueAtTime_def
      linearRampToValueAtTime_def exponentialRampToValueAtTime_def gesture_ramps_def
      gesture_calls[where ?d1.0 = "0.1" and ?d2.0 = "0.5"])

lemma triggerDelay_param:
  assumes "delaySend st = Some (GainNode p)"
  shows "delaySend (triggerDelay st (Fin now)) =
     Some (GainNode (p\<lparr>events :=
       filter (\<lambda>e. lt (event_time e) (Fin now)) (events p)
       @ SetValueAtTime (pvalue p) (Fin now) # gesture_ramps ''delay'' now\<rparr>))"
  using assms
  by (simp add: triggerDelay_def Let_def cancelScheduledValues_def setValueAtTime_def
      linearRampToValueAtTime_def exponentialRampToValueAtTime_def gesture_ramps_def
      gesture_calls[where ?d1.0 = "0.1" and ?d2.0 = "0.4"])

lemma gesture_param_names:
  assumes "gesture_param st name = Some p"
  shows "name = ''reverb'' \<or> name = ''filter'' \<or> name = ''distortion'' \<or> name = ''delay''"
  using assms by (auto simp: gesture_param_def split: if_splits)

lemma triggerGestureFX_param:
  assumes "ctx st \<noteq> None" and "gesture_param st name = Some p"
  shows "gesture_param (triggerGestureFX now st name) name =
     Some (p\<lparr>events :=
       filter (\<lambda>e. lt (event_time e) (Fin now)) (events p)
       @ SetValueAtTime (pvalue p) (Fin now) # gesture_ramps name now\<rparr>)"
proof -
  consider "name = ''reverb''" | "name = ''filter''" | "name = ''distortion''"
    | "name = ''delay''"
    using gesture_param_names[OF assms(2)] by blast
  then show ?thesis
  proof cases
    case 1
    from assms(2) obtain "reverbSend st = Some (GainNode p)"
      by (auto simp: 1 gesture_param_def split: option.splits audio_node.splits)
    from triggerReverb_param[OF this, of now] assms(1) show ?thesis
      by (auto simp: 1 gesture_param_def triggerGestureFX_def)
  next
    case 2
    from assms(2) obtain ty q where "masterFilter st = Some (BiquadFilterNode ty p q)"
      by (auto simp: 2 gesture_param_def split: option.splits audio_node.splits)
    from triggerLowPass_param[OF this, of now] assms(1) show ?thesis
      by (auto simp: 2 gesture_param_def triggerGestureFX_def)
  next
    case 3
    from assms(2) obtain "distortionSend st = Some (GainNode p)"
      by (auto simp: 3 gesture_param_def split: option.splits audio_node.splits)
    from triggerDistortion_param[OF this, of now] assms(1) show ?thesis
      by (auto simp: 3 gesture_param_def triggerGestureFX_def)
  next
    case 4
    from assms(2) obtain "delaySend st = Some (GainNode p)"
      by (auto simp: 4 gesture_param_def split: option.splits audio_node.splits)
    from triggerDelay_param[OF this, of now] assms(1) show ?thesis
      by (auto simp: 4 gesture_param_def triggerGestureFX_def)
  qed
qed

lemma gesture_ramps_facts:
  assumes "name = ''reverb'' \<or> name = ''filter'' \<or> name = ''distortion'' \<or> name = ''delay''"
  shows "length (gesture_ramps name now) = 2"
    and "sorted_wrt (\<lambda>a b. lt (event_time a) (event_time b))
           (SetValueAtTime v (Fin now) # gesture_ramps name now)"
    and "list_all (\<lambda>e. in_range (gesture_lo name) (gesture_hi name) (event_value e))
           (gesture_ramps name now)"
    and "list_all (\<lambda>e. \<not> lt (event_time e) (Fin now)) (gesture_ramps name now)"
  using assms by (auto simp: gesture_ramps_def gesture_lo_def gesture_hi_def)

lemma gesture_bounded_iff:
  "gesture_bounded st =
     (\<forall>name p. gesture_param st name = Some p \<longrightarrow>
        bounded (gesture_lo name) (gesture_hi name) p)"
proof
  assume b: "gesture_bounded st"
  show "\<forall>name p. gesture_param st name = Some p \<longrightarrow>
        bounded (gesture_lo name) (gesture_hi name) p"
  proof (intro allI impI)
    fix name p
    assume p: "gesture_param st name = Some p"
    from gesture_param_names[OF p] b p
    show "bounded (gesture_lo name) (gesture_hi name) p"
      by (auto simp: gesture_bounded_def)
  qed
next
  assume "\<forall>name p. gesture_param st name = Some p \<longrightarrow>
        bounded (gesture_lo name) (gesture_hi name) p"
  then show "gesture_bounded st"
    by (auto simp: gesture_bounded_def split: option.splits)
qed

lemma init_gesture_params:
  "reverbSend (init fresh new_engine) = Some (GainNode (new_param 0))"
  "masterFilter (init fresh new_engine) =
     Some (BiquadFilterNode Lowpass (new_param 22000) (new_param 1))"
  "distortionSend (init fresh new_engine) = Some (GainNode (new_param 0))"
  "delaySend (init fresh new_engine) = Some (GainNode (new_param 0))"
  by (simp_all add: init_def new_engine_def Let_def)

lemma init_gesture_bounded: "gesture_bounded (init fresh new_engine)"
  by (simp add: gesture_bounded_def gesture_param_def init_gesture_params bounded_def
      new_param_def gesture_lo_def gesture_hi_def)

lemma trigger_frames:
  "masterFilter (triggerReverb st t) = masterFilter st"
  "distortionSend (triggerReverb st t) = distortionSend st"
  "delaySend (triggerReverb st t) = delaySend st"
  "reverbSend (triggerLowPass st t) = reverbSend st"
  "distortionSend (triggerLowPass st t) = distortionSend st"
  "delaySend (triggerLowPass st t) = delaySend st"
  "reverbSend (triggerDistortion st t) = reverbSend st"
  "masterFilter (triggerDistortion st t) = masterFilter st"
  "delaySend (triggerDistortion st t) = delaySend st"
  "reverbSend (triggerDelay st t) = reverbSend st"
  "masterFilter (triggerDelay st t) = masterFilter st"
  "distortionSend (triggerDelay st t) = distortionSend st"
  by (simp_all add: triggerReverb_def triggerLowPass_def triggerDistortion_def
      triggerDelay_def Let_def split: option.splits audio_node.splits)

lemma triggerGestureFX_other:
  assumes "n \<noteq> name"
  shows "gesture_param (triggerGestureFX now st name) n = gesture_param st n"
proof (cases "ctx st = None")
  case True
  then show ?thesis
    by (simp add: triggerGestureFX_def)
next
  case False
  consider "name = ''reverb''" | "name = ''filter''" | "name = ''distortion''"
    | "name = ''delay''"
    | "name \<noteq> ''reverb''" "name \<noteq> ''filter''" "name \<noteq> ''distortion''" "name \<noteq> ''delay''"
    by blast
  then show ?thesis
  proof cases
    case 1
    with assms False show ?thesis
      by (simp add: triggerGestureFX_def gesture_param_def trigger_frames)
  next
    case 2
    with assms False show ?thesis
      by (simp add: triggerGestureFX_def gesture_param_def trigger_frames)
  next
    case 3
    with assms False show ?thesis
      by (simp add: triggerGestureFX_def gesture_param_def trigger_frames)
  next
    case 4
    with assms False show ?thesis
      by (simp add: triggerGestureFX_def gesture_param_def trigger_frames)
  next
    case 5
    with False show ?thesis
      by (simp add: triggerGestureFX_def)
  qed
qed

lemma triggerReverb_absent:
  "gesture_param st ''reverb'' = None \<Longrightarrow> triggerReverb st t = st"
  by (cases "reverbSend st")
     (auto simp: gesture_param_def triggerReverb_def split: audio_node.splits)

lemma triggerLowPass_absent:
  "gesture_param st ''filter'' = None \<Longrightarrow> triggerLowPass st t = st"
  by (cases "masterFilter st")
     (auto simp: gesture_param_def triggerLowPass_def split: audio_node.splits)

lemma triggerDistortion_absent:
  "gesture_param st ''distortion'' = None \<Longrightarrow> triggerDistortion st t = st"
  by (cases "distortionSend st")
     (auto simp: gesture_param_def triggerDistortion_def split: audio_node.splits)

lemma triggerDelay_absent:
  "gesture_param st ''delay'' = None \<Longrightarrow> triggerDelay st t = st"
  by (cases "delaySend st")
     (auto simp: gesture_param_def triggerDelay_def split: audio_node.splits)

lemma triggerGestureFX_absent:
  assumes "gesture_param st name = None"
  shows "triggerGestureFX now st name = st"
proof (cases "ctx st = None")
  case True
  then show ?thesis
    by (simp add: triggerGestureFX_def)
next
  case False
  consider "name = ''reverb''" | "name = ''filter''" | "name = ''distortion''"
    | "name = ''delay''"
    | "name \<noteq> ''reverb''" "name \<noteq> ''filter''" "name \<noteq> ''distortion''" "name \<noteq> ''delay''"
    by blast
  then show ?thesis
  proof cases
    case 1
    with assms False show ?thesis
      by (simp add: triggerGestureFX_def triggerReverb_absent)
  next
    case 2
    with assms False show ?thesis
      by (simp add: triggerGestureFX_def triggerLowPass_absent)
  next
    case 3
    with assms False show ?thesis
      by (simp add: triggerGestureFX_def triggerDistortion_absent)
  next
    case 4
    with assms False show ?thesis
      by (simp add: triggerGestureFX_def triggerDelay_absent)
  next
    case 5
    with False show ?thesis
      by (simp add: triggerGestureFX_def)
  qed
qed

lemma triggerGestureFX_uninitialised:
  "ctx st = None \<Longrightarrow> triggerGestureFX now st name = st"
  by (simp add: triggerGestureFX_def)

lemma bounded_after_gesture:
  assumes "bounded (gesture_lo name) (gesture_hi name) p"
    and "name = ''reverb'' \<or> name = ''filter'' \<or> name = ''distortion'' \<or> name = ''delay''"
  shows "bounded (gesture_lo name) (gesture_hi name)
     (p\<lparr>events :=
        filter (\<lambda>e. lt (event_time e) (Fin now)) (events p)
        @ SetValueAtTime (pvalue p) (Fin now) # gesture_ramps name now\<rparr>)"
  using assms(1) gesture_ramps_facts(3)[OF assms(2), of now]
  by (auto simp: bounded_def list_all_iff)

lemma triggerGestureFX_bounded:
  assumes "gesture_bounded st"
  shows "gesture_bounded (triggerGestureFX now st name)"
proof (cases "ctx st = None")
  case True
  with assms show ?thesis
    by (simp add: triggerGestureFX_uninitialised)
next
  case False
  show ?thesis
    unfolding gesture_bounded_iff
  proof (intro allI impI)
    fix n q
    assume q: "gesture_param (triggerGestureFX now st name) n = Some q"
    show "bounded (gesture_lo n) (gesture_hi n) q"
    proof (cases "n = name")
      case other: False
      with q assms show ?thesis
        by (simp add: triggerGestureFX_other gesture_bounded_iff)
    next
      case True
      with q triggerGestureFX_absent[of st name now]
      obtain p where p: "gesture_param st name = Some p"
        by (cases "gesture_param st name") auto
      from assms p have "bounded (gesture_lo name) (gesture_hi name) p"
        by (simp add: gesture_bounded_iff)
      from bounded_after_gesture[OF this gesture_param_names[OF p], of now]
        triggerGestureFX_param[OF False p, of now] q True
      show ?thesis
        by simp
    qed
  qed
qed

lemma leq_in_range:
  "in_range lo hi a \<Longrightarrow> leq a (Fin v) \<Longrightarrow> lo \<le> v"
  "in_range lo hi b \<Longrightarrow> leq (Fin v) b \<Longrightarrow> v \<le> hi"
  by (cases a; simp) (cases b; simp)

lemma in_hull_bounded:
  assumes "bounded lo hi p" and "in_hull p v"
  shows "bounded lo hi (p\<lparr>pvalue := Fin v\<rparr>)"
proof -
  from assms(1) have all: "x \<in> set (pvalue p # map event_value (events p)) \<Longrightarrow> in_range lo hi x"
    for x
    by (auto simp: bounded_def list_all_iff)
  from assms(2) obtain a b
    where "a \<in> set (pvalue p # map event_value (events p))" and "leq a (Fin v)"
      and "b \<in> set (pvalue p # map event_value (events p))" and "leq (Fin v) b"
    unfolding in_hull_def list_ex_iff by blast
  with all[of a] all[of b] have "lo \<le> v" and "v \<le> hi"
    by (auto dest: leq_in_range)
  with assms(1) show ?thesis
    by (simp add: bounded_def)
qed

lemma gesture_param_set:
  assumes "gesture_param st name = Some p"
  shows "gesture_param (set_gesture_param st name q) n =
     (if n = name then Some q else gesture_param st n)"
proof -
  consider "name = ''reverb''" | "name = ''filter''" | "name = ''distortion''"
    | "name = ''delay''"
    using gesture_param_names[OF assms] by blast
  then show ?thesis
  proof cases
    case 1
    then show ?thesis
      by (simp add: gesture_param_def set_gesture_param_def)
  next
    case 2
    with assms obtain ty r where "masterFilter st = Some (BiquadFilterNode ty p r)"
      by (cases "masterFilter st") (auto simp: gesture_param_def split: audio_node.splits)
    with 2 show ?thesis
      by (simp add: gesture_param_def set_gesture_param_def)
  next
    case 3
    then show ?thesis
      by (simp add: gesture_param_def set_gesture_param_def)
  next
    case 4
    then show ?thesis
      by (simp add: gesture_param_def set_gesture_param_def)
  qed
qed

lemma audio_thread_bounded:
  assumes "gesture_bounded st" and "audio_thread st name v = Some st'"
  shows "gesture_bounded st'"
proof -
  from assms(2) obtain p where p: "gesture_param st name = Some p" and h: "in_hull p v"
    and st': "st' = set_gesture_param st name (p\<lparr>pvalue := Fin v\<rparr>)"
    by (auto simp: audio_thread_def split: option.splits if_splits)
  from assms(1) p have "bounded (gesture_lo name) (gesture_hi name) p"
    by (simp add: gesture_bounded_iff)
  from in_hull_bounded[OF this h] assms(1) show ?thesis
    unfolding st' gesture_bounded_iff by (simp add: gesture_param_set[OF p])
qed

text \<open>
  From \<^verbatim>\<open>init\<close> on, whatever gestures arrive and wherever the audio thread has taken
  the parameters, every gesture parameter is within the range of its effect.
\<close>

lemma run_gestures_bounded:
  assumes "gesture_bounded st" and "run_gestures es st = Some st'"
  shows "gesture_bounded st'"
  using assms
proof (induction es st rule: run_gestures.induct)
  case (1 st)
  then show ?case by simp
next
  case (2 now name es st)
  then show ?case
    by (simp add: triggerGestureFX_bounded)
next
  case (3 name v es st)
  then show ?case
    by (auto split: option.splits dest: audio_thread_bounded)
qed

text \<open>
  C8. A gesture effect triggered at time \<open>now\<close> on an initialised engine, whatever is
  on the timeline of its parameter \<open>p\<close> and whatever value the parameter has reached:
  every event at or after \<open>now\<close> is removed, those before \<open>now\<close> stay, and the
  timeline continues with the value of the parameter set at \<open>now\<close> and the two ramps of
  the effect. What is pending after the call is that anchor and those two ramps only, at
  strictly increasing times, so no ramp of an earlier trigger runs beside them. The range
  of each effect is kept: if the gesture parameters were in range before the call, value
  and targets, they are after it, and so is every pending target. They are in range after
  \<^verbatim>\<open>init\<close>, and stay so through every history of gestures and moves of the audio
  thread.
\<close>

theorem triggerGestureFX_retrigger:
  assumes "ctx st \<noteq> None" and "gesture_param st name = Some p"
  shows "\<exists>p'. gesture_param (triggerGestureFX now st name) name = Some p'
     \<and> pvalue p' = pvalue p
     \<and> events p' =
         filter (\<lambda>e. lt (event_time e) (Fin now)) (events p)
         @ SetValueAtTime (pvalue p) (Fin now) # gesture_ramps name now
     \<and> pending p' now = SetValueAtTime (pvalue p) (Fin now) # gesture_ramps name now
     \<and> length (gesture_ramps name now) = 2
     \<and> sorted_wrt (\<lambda>a b. lt (event_time a) (event_time b)) (pending p' now)
     \<and> (gesture_bounded st \<longrightarrow>
          gesture_bounded (triggerGestureFX now st name)
          \<and> bounded (gesture_lo name) (gesture_hi name) p'
          \<and> list_all (\<lambda>e. in_range (gesture_lo name) (gesture_hi name) (event_value e))
              (pending p' now))
     \<and> gesture_bounded (init fresh new_engine)
     \<and> (gesture_bounded st0 \<and> run_gestures history st0 = Some st1 \<longrightarrow> gesture_bounded st1)"
proof -
  let ?p' = "p\<lparr>events :=
       filter (\<lambda>e. lt (event_time e) (Fin now)) (events p)
       @ SetValueAtTime (pvalue p) (Fin now) # gesture_ramps name now\<rparr>"
  note names = gesture_param_names[OF assms(2)]
  have pend: "pending ?p' now = SetValueAtTime (pvalue p) (Fin now) # gesture_ramps name now"
    using gesture_ramps_facts(4)[OF names, of now]
    by (simp add: pending_def list_all_iff filter_id_conv)
  have "gesture_param (triggerGestureFX now st name) name = Some ?p'"
    by (rule triggerGestureFX_param[OF assms])
  moreover have "pvalue ?p' = pvalue p"
    by simp
  moreover have "events ?p' =
         filter (\<lambda>e. lt (event_time e) (Fin now)) (events p)
         @ SetValueAtTime (pvalue p) (Fin now) # gesture_ramps name now"
    by simp
  moreover note pend
  moreover have "length (gesture_ramps name now) = 2"
    by (rule gesture_ramps_facts(1)[OF names])
  moreover have "sorted_wrt (\<lambda>a b. lt (event_time a) (event_time b)) (pending ?p' now)"
    unfolding pend by (rule gesture_ramps_facts(2)[OF names])
  moreover have "gesture_bounded st \<longrightarrow>
          gesture_bounded (triggerGestureFX now st name)
          \<and> bounded (gesture_lo name) (gesture_hi name) ?p'
          \<and> list_all (\<lambda>e. in_range (gesture_lo name) (gesture_hi name) (event_value e))
              (pending ?p' now)"
  proof
    assume b: "gesture_bounded st"
    with assms(2) have bp: "bounded (gesture_lo name) (gesture_hi name) p"
      by (simp add: gesture_bounded_iff)
    have "bounded (gesture_lo name) (gesture_hi name) ?p'"
      by (rule bounded_after_gesture[OF bp names])
    moreover from bp have "list_all
        (\<lambda>e. in_range (gesture_lo name) (gesture_hi name) (event_value e)) (pending ?p' now)"
      unfolding pend using gesture_ramps_facts(3)[OF names, of now]
      by (simp add: bounded_def)
    ultimately show "gesture_bounded (triggerGestureFX now st name)
          \<and> bounded (gesture_lo name) (gesture_hi name) ?p'
          \<and> list_all (\<lambda>e. in_range (gesture_lo name) (gesture_hi name) (event_value e))
              (pending ?p' now)"
      using triggerGestureFX_bounded[OF b] by simp
  qed
  moreover have "gesture_bounded (init fresh new_engine)"
    by (rule init_gesture_bounded)
  moreover have "gesture_bounded st0 \<and> run_gestures history st0 = Some st1 \<longrightarrow>
      gesture_bounded st1"
    using run_gestures_bounded by blast
  ultimately show ?thesis
    by blast
qed

lemma first_reverb:
  "reverbSend (triggerGestureFX 1 ready_engine ''reverb'') =
     Some (GainNode
       \<lparr>pvalue = Fin 0,
        events =
          [SetValueAtTime (Fin 0) (Fin 1),
           LinearRampToValueAtTime (Fin 1) (Fin 1.1),
           ExponentialRampToValueAtTime (Fin 0.01) (Fin 3)]\<rparr>)"
  using triggerReverb_param[OF ready_engine_fields(4), of 1]
  by (simp add: triggerGestureFX_def ready_engine_fields new_param_def gesture_ramps_def)

lemma reverb_in_flight_run:
  "run_gestures [Gesture 1 ''reverb'', AudioThread ''reverb'' 0.5] ready_engine
     = Some reverb_in_flight"
  by (simp add: reverb_in_flight_def audio_thread_def gesture_param_def first_reverb
      in_hull_def)

lemma reverb_in_flight_eq:
  "reverb_in_flight =
     (triggerGestureFX 1 ready_engine ''reverb'')
       \<lparr>reverbSend :=
          Some (GainNode
            \<lparr>pvalue = Fin 0.5,
             events =
               [SetValueAtTime (Fin 0) (Fin 1),
                LinearRampToValueAtTime (Fin 1) (Fin 1.1),
                ExponentialRampToValueAtTime (Fin 0.01) (Fin 3)]\<rparr>)\<rparr>"
  by (simp add: reverb_in_flight_def audio_thread_def gesture_param_def first_reverb
      in_hull_def set_gesture_param_def)

lemma reverb_in_flight_fields:
  "ctx reverb_in_flight \<noteq> None"
  "gesture_param reverb_in_flight ''reverb'' =
     Some \<lparr>pvalue = Fin 0.5,
           events =
             [SetValueAtTime (Fin 0) (Fin 1),
              LinearRampToValueAtTime (Fin 1) (Fin 1.1),
              ExponentialRampToValueAtTime (Fin 0.01) (Fin 3)]\<rparr>"
proof -
  have c: "ctx (triggerGestureFX 1 ready_engine ''reverb'') = ctx ready_engine"
    by (simp add: triggerGestureFX_def triggerReverb_def ready_engine_fields Let_def)
  show "ctx reverb_in_flight \<noteq> None"
    unfolding reverb_in_flight_eq by (simp add: c ready_engine_fields)
  show "gesture_param reverb_in_flight ''reverb'' =
     Some \<lparr>pvalue = Fin 0.5,
           events =
             [SetValueAtTime (Fin 0) (Fin 1),
              LinearRampToValueAtTime (Fin 1) (Fin 1.1),
              ExponentialRampToValueAtTime (Fin 0.01) (Fin 3)]\<rparr>"
    unfolding reverb_in_flight_eq by (simp add: gesture_param_def)
qed

theorem triggerGestureFX_retrigger_witness:
  "pending \<lparr>pvalue = Fin 0.5,
            events =
              [SetValueAtTime (Fin 0) (Fin 1),
               LinearRampToValueAtTime (Fin 1) (Fin 1.1),
               ExponentialRampToValueAtTime (Fin 0.01) (Fin 3)]\<rparr> 1.05
     = [LinearRampToValueAtTime (Fin 1) (Fin 1.1),
        ExponentialRampToValueAtTime (Fin 0.01) (Fin 3)]
   \<and> gesture_param (triggerGestureFX 1.05 reverb_in_flight ''reverb'') ''reverb'' =
       Some \<lparr>pvalue = Fin 0.5,
             events =
               [SetValueAtTime (Fin 0) (Fin 1),
                SetValueAtTime (Fin 0.5) (Fin 1.05),
                LinearRampToValueAtTime (Fin 1) (Fin 1.15),
                ExponentialRampToValueAtTime (Fin 0.01) (Fin 3.05)]\<rparr>
   \<and> gesture_bounded reverb_in_flight
   \<and> gesture_bounded (triggerGestureFX 1.05 reverb_in_flight ''reverb'')"
proof -
  have b0: "gesture_bounded ready_engine"
    unfolding ready_engine_def loadTrack_def
    using init_gesture_bounded[of Running]
    by (simp add: gesture_bounded_def gesture_param_def)
  from triggerGestureFX_retrigger[OF reverb_in_flight_fields,
      where now = "1.05" and ?st0.0 = ready_engine and ?st1.0 = reverb_in_flight
        and history = "[Gesture 1 ''reverb'', AudioThread ''reverb'' 0.5]"]
    b0 reverb_in_flight_run
  obtain p' where p': "gesture_param (triggerGestureFX 1.05 reverb_in_flight ''reverb'') ''reverb''
      = Some p'"
    and v: "pvalue p' = Fin 0.5"
    and e: "events p' =
       [SetValueAtTime (Fin 0) (Fin 1), SetValueAtTime (Fin 0.5) (Fin 1.05),
        LinearRampToValueAtTime (Fin 1) (Fin 1.15),
        ExponentialRampToValueAtTime (Fin 0.01) (Fin 3.05)]"
    and b: "gesture_bounded reverb_in_flight"
      "gesture_bounded (triggerGestureFX 1.05 reverb_in_flight ''reverb'')"
    by (auto simp: gesture_ramps_def)
  have "p' = \<lparr>pvalue = Fin 0.5,
             events =
               [SetValueAtTime (Fin 0) (Fin 1),
                SetValueAtTime (Fin 0.5) (Fin 1.05),
                LinearRampToValueAtTime (Fin 1) (Fin 1.15),
                ExponentialRampToValueAtTime (Fin 0.01) (Fin 3.05)]\<rparr>"
    using v e by (cases p') simp
  with p' b show ?thesis
    by (simp add: pending_def)
qed

end
